theory Spec2Isabelle
  imports Main "HOL-Library.Word"
begin

section \<open>The inflation operation of dm-core (transactions/InflationOpFrame.cpp)\<close>

text \<open>
  The operation has two variants, chosen by \<open>doApply\<close>: \<open>origInflationOpFrame\<close>
  (no common budget account configured) and \<open>commonBudgetInflationOpFrame\<close>.
  Both read and write the ledger header and the balances of accounts.  The C++ works on
  a nested \<open>LedgerDelta\<close> that is committed only at the end: a run that returns early
  (\<open>INFLATION_NOT_TIME\<close>) or throws leaves the ledger as it was.  The model passes the
  ledger in and returns either an error (the exception) or the operation result together
  with the ledger after the run.

  The meters of \<open>app.getMetrics()\<close> are left out: they do not touch the ledger or the
  result.

  All 64-bit quantities are \<open>64 word\<close>: \<open>+\<close>, \<open>-\<close> and \<open>*\<close> wrap around as the
  machine operations do, \<open>sint\<close> reads a value as \<open>int64_t\<close>, \<open>uint\<close> and \<open>unat\<close>
  as \<open>uint64_t\<close>.
\<close>

subsection \<open>Data\<close>

type_synonym int64 = "64 word"
type_synonym uint64 = "64 word"
type_synonym uint32 = "32 word"

text \<open>An account is named by its key string; \<open>KeyUtils::fromStrKey\<close> is left out.\<close>

type_synonym AccountID = string

text \<open>
  Modelled from the spec: the declaration of the ledger header (the generated XDR header
  \<open>overlay/StellarXDR.h\<close>) is not among the source files.  Section 3 of the
  specification gives the aggregates as \<open>totalCoins: uint64\<close>, \<open>feePool: uint64\<close>,
  \<open>distributionSequence: uint64\<close> (the field \<open>inflationSeq\<close>), \<open>closeTime: timestamp\<close>
  (the field \<open>scpValue.closeTime\<close>) and \<open>ledgerVersion: uint32\<close> (what
  \<open>getCurrentLedgerVersion\<close> returns).
\<close>

record LedgerHeader =
  ledgerVersion :: uint32
  closeTime :: uint64
  totalCoins :: uint64
  feePool :: uint64
  inflationSeq :: uint64

text \<open>\<open>AccountFrame::InflationVotes\<close>: one row of the vote tally.\<close>

record InflationVotes =
  mVotes :: int64
  mInflationDest :: AccountID

text \<open>One entry of \<open>InflationResult::payouts\<close>.\<close>

record InflationPayout =
  destination :: AccountID
  amount :: int64

datatype InflationResult =
    INFLATION_NOT_TIME
  | INFLATION_SUCCESS "InflationPayout list"

text \<open>
  The accounts of the database, seen through the delta: an account that exists has a
  balance.  \<open>AccountFrame::loadAccount\<close> is a lookup that returns a null pointer for an
  account that does not exist.
\<close>

type_synonym Accounts = "AccountID \<rightharpoonup> int64"

definition loadAccount :: "Accounts \<Rightarrow> AccountID \<Rightarrow> int64 option" where
  "loadAccount db aid = db aid"

record Ledger =
  header :: LedgerHeader
  accounts :: Accounts

text \<open>
  The part of \<open>Config\<close> the operation reads.  \<open>COMMON_BUDGET_INFLATION_MAX_ACCOUNTS\<close>
  is only handed to the tally as its limit; the model takes it as a natural number.
\<close>

record Config =
  COMMON_BUDGET_ACCOUNT_ID :: string
  COMMON_BUDGET_INFLATION_MIN_BALANCE :: int64
  COMMON_BUDGET_INFLATION_MAX_ACCOUNTS :: nat
  COMMON_BUDGET_INFLATION_EXCLUDED_ACCOUNTS :: "string list"

text \<open>
  The ways a run ends without a result: the two \<open>std::runtime_error\<close>s the operation
  throws itself, and the two failures of \<open>bigDivide\<close>.
\<close>

datatype error =
    InflationOverflowedDestinationBalance
  | InflationOverflowedCommonBudgetBalance
  | BigDivideOverflow
  | BigDividePrecondition

subsection \<open>Constants\<close>

definition INFLATION_FREQUENCY :: uint32 where
  "INFLATION_FREQUENCY = 60 * 5"

definition INFLATION_RATE_TRILLIONTHS :: int64 where
  "INFLATION_RATE_TRILLIONTHS = 190721000"

definition TRILLION :: int64 where
  "TRILLION = 1000000000000"

definition INFLATION_WIN_MIN_PERCENT :: int64 where
  "INFLATION_WIN_MIN_PERCENT = 500000000"

definition INFLATION_NUM_WINNERS :: nat where
  "INFLATION_NUM_WINNERS = 2000"

definition INFLATION_START_TIME :: int64 where
  "INFLATION_START_TIME = 1404172800"

definition INT64_MAX :: int where
  "INT64_MAX = 2 ^ 63 - 1"

definition INT64_MIN :: int where
  "INT64_MIN = - (2 ^ 63)"

subsection \<open>Collaborators that are not in the source file\<close>

text \<open>
  Modelled from the spec: \<open>bigDivide\<close> (util/types) is not among the source files.
  The specification describes it as the exact integer multiply-then-divide with an
  explicit rounding direction and overflow detection (section 2), on which a division
  by \<open>totalVotes \<le> 0\<close> is undefined and an internal precondition failure (sections 4.2
  and 7).  The operation only ever rounds down.  The product is taken over the
  integers; operands outside the domain (a negative factor, a divisor that is not
  positive) are the precondition failure, and a quotient beyond \<open>int64_t\<close> is the
  detected overflow.
\<close>

definition bigDivide :: "int64 \<Rightarrow> int64 \<Rightarrow> int64 \<Rightarrow> error + int64" where
  "bigDivide A B C =
     (if sint A < 0 \<or> sint B < 0 \<or> sint C \<le> 0 then Inl BigDividePrecondition
      else let x = (sint A * sint B) div sint C
           in if INT64_MAX < x then Inl BigDivideOverflow else Inr (word_of_int x))"

text \<open>
  Modelled from the spec: \<open>AccountFrame::addBalance\<close> is not among the source files.
  Section 6 of the specification: \<open>addBalance(amount) -> bool\<close>, false when the credit
  would overflow the 64-bit balance.  \<open>None\<close> is the result false; \<open>Some b\<close> is the result
  true with the new balance \<open>b\<close>.
\<close>

definition addBalance :: "int64 \<Rightarrow> int64 \<Rightarrow> int64 option" where
  "addBalance balance delta =
     (if sint balance + sint delta < INT64_MIN \<or> INT64_MAX < sint balance + sint delta
      then None else Some (balance + delta))"

text \<open>
  Modelled from the spec: \<open>AccountFrame::processForInflation\<close> and
  \<open>AccountFrame::processForCommonBudgetInflation\<close> are not among the source files.
  Sections 4.3 and 6 of the specification: the vote source hands over, in its own order,
  the candidates that satisfy the predicate of the caller, at most \<open>maxWinners\<close> of
  them.  \<open>rows\<close> are the rows of the tally of the scheme; the processor of the source
  (the lambda) pushes a row it accepts onto \<open>winners\<close>.
\<close>

definition processForInflation ::
  "(InflationVotes \<Rightarrow> bool) \<Rightarrow> nat \<Rightarrow> InflationVotes list \<Rightarrow> InflationVotes list" where
  "processForInflation inflationProcessor maxWinners rows =
     take maxWinners (filter inflationProcessor rows)"

subsection \<open>The time of the next inflation\<close>

text \<open>
  \<open>time_t inflationTime = (INFLATION_START_TIME + seq * INFLATION_FREQUENCY)\<close> with
  \<open>uint64_t seq\<close>: the sum is computed in 64 bits and compared, as \<open>time_t\<close>, with the
  signed reading of the close time.
\<close>

definition inflationTime :: "LedgerHeader \<Rightarrow> int64" where
  "inflationTime lcl = INFLATION_START_TIME + inflationSeq lcl * ucast INFLATION_FREQUENCY"

definition notTime :: "LedgerHeader \<Rightarrow> bool" where
  "notTime lcl = (sint (closeTime lcl) < sint (inflationTime lcl))"

subsection \<open>The loop over the winners\<close>

text \<open>
  What the loop reads and writes: the local \<open>leftAfterDole\<close>, the header \<open>lcl\<close> of the
  delta, the accounts, and the payouts of the result.
\<close>

record DoleState =
  leftAfterDole :: int64
  lcl :: LedgerHeader
  accts :: Accounts
  payouts :: "InflationPayout list"

text \<open>A \<open>for\<close> loop whose body may throw: the first exception ends it.\<close>

fun forEach :: "('a \<Rightarrow> 's \<Rightarrow> error + 's) \<Rightarrow> 'a list \<Rightarrow> 's \<Rightarrow> error + 's" where
  "forEach body [] s = Inr s"
| "forEach body (w # ws) s =
     (case body w s of Inl e \<Rightarrow> Inl e | Inr s' \<Rightarrow> forEach body ws s')"

text \<open>The body of the loop of \<open>origInflationOpFrame\<close> (lines 107 to 135).\<close>

definition origDoleWinner :: "int64 \<Rightarrow> int64 \<Rightarrow> InflationVotes \<Rightarrow> DoleState \<Rightarrow> error + DoleState" where
  "origDoleWinner amountToDole totalVotes w s =
     (case bigDivide amountToDole (mVotes w) totalVotes of
        Inl e \<Rightarrow> Inl e
      | Inr toDoleThisWinner \<Rightarrow>
          if toDoleThisWinner = 0 then Inr s
          else
            (case loadAccount (accts s) (mInflationDest w) of
               None \<Rightarrow> Inr s
             | Some winner \<Rightarrow>
                 let left = leftAfterDole s - toDoleThisWinner;
                     lcl' = (if ledgerVersion (lcl s) \<le> 7
                             then (lcl s)\<lparr>totalCoins := totalCoins (lcl s) + toDoleThisWinner\<rparr>
                             else lcl s)
                 in (case addBalance winner toDoleThisWinner of
                       None \<Rightarrow> Inl InflationOverflowedDestinationBalance
                     | Some b \<Rightarrow>
                         Inr \<lparr>leftAfterDole = left, lcl = lcl',
                              accts = (accts s)(mInflationDest w \<mapsto> b),
                              payouts = payouts s @
                                [\<lparr>destination = mInflationDest w, amount = toDoleThisWinner\<rparr>]\<rparr>)))"

text \<open>The body of the loop of \<open>commonBudgetInflationOpFrame\<close> (lines 214 to 238).\<close>

definition commonBudgetDoleWinner ::
  "int64 \<Rightarrow> int64 \<Rightarrow> InflationVotes \<Rightarrow> DoleState \<Rightarrow> error + DoleState" where
  "commonBudgetDoleWinner amountToDole totalVotes w s =
     (case bigDivide amountToDole (mVotes w) totalVotes of
        Inl e \<Rightarrow> Inl e
      | Inr toDoleThisWinner \<Rightarrow>
          if toDoleThisWinner = 0 then Inr s
          else
            (case loadAccount (accts s) (mInflationDest w) of
               None \<Rightarrow> Inr s
             | Some winner \<Rightarrow>
                 let left = leftAfterDole s - toDoleThisWinner
                 in (case addBalance winner toDoleThisWinner of
                       None \<Rightarrow> Inl InflationOverflowedDestinationBalance
                     | Some b \<Rightarrow>
                         Inr \<lparr>leftAfterDole = left, lcl = lcl s,
                              accts = (accts s)(mInflationDest w \<mapsto> b),
                              payouts = payouts s @
                                [\<lparr>destination = mInflationDest w, amount = toDoleThisWinner\<rparr>]\<rparr>)))"

subsection \<open>The legacy scheme\<close>

text \<open>
  The parameters of \<open>origInflationOpFrame\<close> (lines 76 to 96).  \<open>totalVotes\<close> is a copy
  of \<open>totalCoins\<close> taken before the loop changes the header.
\<close>

definition origTotalVotes :: "LedgerHeader \<Rightarrow> int64" where
  "origTotalVotes h = totalCoins h"

definition origMinBalance :: "LedgerHeader \<Rightarrow> error + int64" where
  "origMinBalance h = bigDivide (origTotalVotes h) INFLATION_WIN_MIN_PERCENT TRILLION"

definition origWinners :: "int64 \<Rightarrow> InflationVotes list \<Rightarrow> InflationVotes list" where
  "origWinners minBalance rows =
     processForInflation (\<lambda>votes. sint minBalance \<le> sint (mVotes votes)) INFLATION_NUM_WINNERS rows"

definition origInflationAmount :: "LedgerHeader \<Rightarrow> error + int64" where
  "origInflationAmount h = bigDivide (totalCoins h) INFLATION_RATE_TRILLIONTHS TRILLION"

definition origInflationOpFrame ::
  "InflationVotes list \<Rightarrow> Ledger \<Rightarrow> error + (InflationResult \<times> Ledger)" where
  "origInflationOpFrame rows st =
     (let h = header st in
      if notTime h then Inr (INFLATION_NOT_TIME, st)
      else
        let totalVotes = origTotalVotes h in
        (case origMinBalance h of
           Inl e \<Rightarrow> Inl e
         | Inr minBalance \<Rightarrow>
             let winners = origWinners minBalance rows in
             (case origInflationAmount h of
                Inl e \<Rightarrow> Inl e
              | Inr inflationAmount \<Rightarrow>
                  let amountToDole = inflationAmount + feePool h;
                      h1 = h\<lparr>feePool := 0, inflationSeq := inflationSeq h + 1\<rparr>
                  in (case forEach (origDoleWinner amountToDole totalVotes) winners
                             \<lparr>leftAfterDole = amountToDole, lcl = h1,
                              accts = accounts st, payouts = []\<rparr> of
                        Inl e \<Rightarrow> Inl e
                      | Inr s \<Rightarrow>
                          let h2 = (lcl s)\<lparr>feePool := feePool (lcl s) + leftAfterDole s\<rparr>;
                              h3 = (if 7 < ledgerVersion h2
                                    then h2\<lparr>totalCoins := totalCoins h2 + inflationAmount\<rparr>
                                    else h2)
                          in Inr (INFLATION_SUCCESS (payouts s),
                                  \<lparr>header = h3, accounts = accts s\<rparr>)))))"

subsection \<open>The common budget scheme\<close>

text \<open>
  Lines 174 to 189: \<open>totalVotes\<close> starts from \<open>totalCoins - feePool\<close>, and the loop over
  the excluded accounts of the configuration subtracts the balance of each one that
  exists.
\<close>

definition commonBudgetTotalVotes :: "Config \<Rightarrow> Ledger \<Rightarrow> int64" where
  "commonBudgetTotalVotes cfg st =
     foldl (\<lambda>totalVotes a.
              case loadAccount (accounts st) a of
                None \<Rightarrow> totalVotes
              | Some balance \<Rightarrow> totalVotes - balance)
       (totalCoins (header st) - feePool (header st))
       (COMMON_BUDGET_INFLATION_EXCLUDED_ACCOUNTS cfg)"

definition commonBudgetWinners :: "Config \<Rightarrow> InflationVotes list \<Rightarrow> InflationVotes list" where
  "commonBudgetWinners cfg rows =
     processForInflation
       (\<lambda>votes. sint (COMMON_BUDGET_INFLATION_MIN_BALANCE cfg) \<le> sint (mVotes votes))
       (COMMON_BUDGET_INFLATION_MAX_ACCOUNTS cfg) rows"

text \<open>
  Line 205: \<open>auto amountToDole = lcl.feePool * 7 / 10\<close>, in the 64-bit unsigned type
  of \<open>feePool\<close>: the product wraps around, the division is the unsigned one.
\<close>

definition commonBudgetAmountToDole :: "LedgerHeader \<Rightarrow> uint64" where
  "commonBudgetAmountToDole h = (feePool h * 7) div 10"

text \<open>Lines 207 to 238: the reset of the fee pool and the loop over the winners.\<close>

definition commonBudgetDole ::
  "Config \<Rightarrow> InflationVotes list \<Rightarrow> Ledger \<Rightarrow> error + DoleState" where
  "commonBudgetDole cfg rows st =
     (let h = header st;
          totalVotes = commonBudgetTotalVotes cfg st;
          winners = commonBudgetWinners cfg rows;
          amountToDole = commonBudgetAmountToDole h
      in forEach (commonBudgetDoleWinner amountToDole totalVotes) winners
           \<lparr>leftAfterDole = feePool h, lcl = h\<lparr>feePool := 0\<rparr>,
            accts = accounts st, payouts = []\<rparr>)"

text \<open>Lines 240 to 259: the credit of the common budget account and the commit.\<close>

definition commonBudgetFinish :: "Config \<Rightarrow> DoleState \<Rightarrow> error + (InflationResult \<times> Ledger)" where
  "commonBudgetFinish cfg s =
     (let cid = COMMON_BUDGET_ACCOUNT_ID cfg;
          amountToCommonBudget = leftAfterDole s;
          h' = (lcl s)\<lparr>inflationSeq := inflationSeq (lcl s) + 1\<rparr>
      in (case loadAccount (accts s) cid of
            None \<Rightarrow> Inr (INFLATION_SUCCESS (payouts s), \<lparr>header = h', accounts = accts s\<rparr>)
          | Some commonBudget \<Rightarrow>
              (case addBalance commonBudget amountToCommonBudget of
                 None \<Rightarrow> Inl InflationOverflowedCommonBudgetBalance
               | Some b \<Rightarrow>
                   Inr (INFLATION_SUCCESS
                          (payouts s @ [\<lparr>destination = cid, amount = amountToCommonBudget\<rparr>]),
                        \<lparr>header = h', accounts = (accts s)(cid \<mapsto> b)\<rparr>))))"

definition commonBudgetInflationOpFrame ::
  "Config \<Rightarrow> InflationVotes list \<Rightarrow> Ledger \<Rightarrow> error + (InflationResult \<times> Ledger)" where
  "commonBudgetInflationOpFrame cfg rows st =
     (if notTime (header st) then Inr (INFLATION_NOT_TIME, st)
      else
        (case commonBudgetDole cfg rows st of
           Inl e \<Rightarrow> Inl e
         | Inr s \<Rightarrow> commonBudgetFinish cfg s))"

subsection \<open>The entry point\<close>

definition doApply ::
  "Config \<Rightarrow> InflationVotes list \<Rightarrow> Ledger \<Rightarrow> error + (InflationResult \<times> Ledger)" where
  "doApply cfg rows st =
     (if COMMON_BUDGET_ACCOUNT_ID cfg = [] then origInflationOpFrame rows st
      else commonBudgetInflationOpFrame cfg rows st)"

subsection \<open>Sums of payouts\<close>

text \<open>The sum of the amounts of a list of payouts, in the 64-bit arithmetic of the code.\<close>

definition sumAmounts :: "InflationPayout list \<Rightarrow> int64" where
  "sumAmounts ps = sum_list (map amount ps)"

subsection \<open>Example ledgers\<close>

text \<open>
  A ledger of \<open>10^15\<close> coins with a fee pool of \<open>10^6\<close>, closed exactly at the
  start time of inflation, two accounts, and a tally of two rows of which the second
  names an account that does not exist.
\<close>

definition exampleHeader :: LedgerHeader where
  "exampleHeader = \<lparr>ledgerVersion = 8, closeTime = 1404172800, totalCoins = 1000000000000000,
     feePool = 1000000, inflationSeq = 0\<rparr>"

definition exampleAccounts :: Accounts where
  "exampleAccounts = [''alice'' \<mapsto> 5, ''budget'' \<mapsto> 7]"

definition exampleLedger :: Ledger where
  "exampleLedger = \<lparr>header = exampleHeader, accounts = exampleAccounts\<rparr>"

definition exampleRows :: "InflationVotes list" where
  "exampleRows = [\<lparr>mVotes = 600000000000000, mInflationDest = ''alice''\<rparr>,
                  \<lparr>mVotes = 300000000000000, mInflationDest = ''ghost''\<rparr>]"

definition exampleConfig :: Config where
  "exampleConfig = \<lparr>COMMON_BUDGET_ACCOUNT_ID = ''budget'',
     COMMON_BUDGET_INFLATION_MIN_BALANCE = 1000,
     COMMON_BUDGET_INFLATION_MAX_ACCOUNTS = 10,
     COMMON_BUDGET_INFLATION_EXCLUDED_ACCOUNTS = [''budget'', ''nobody'']\<rparr>"

text \<open>
  The state of the common budget run on the example ledger after its loop over the
  winners.
\<close>

definition exampleDoleState :: DoleState where
  "exampleDoleState = \<lparr>leftAfterDole = 580000,
     lcl = \<lparr>ledgerVersion = 8, closeTime = 1404172800, totalCoins = 1000000000000000,
             feePool = 0, inflationSeq = 0\<rparr>,
     accts = exampleAccounts(''alice'' \<mapsto> 420005),
     payouts = [\<lparr>destination = ''alice'', amount = 420000\<rparr>]\<rparr>"

text \<open>The same ledger at protocol version 7, and closed one second too early.\<close>

definition exampleLedgerV7 :: Ledger where
  "exampleLedgerV7 = exampleLedger\<lparr>header := exampleHeader\<lparr>ledgerVersion := 7\<rparr>\<rparr>"

definition exampleLedgerEarly :: Ledger where
  "exampleLedgerEarly = exampleLedger\<lparr>header := exampleHeader\<lparr>closeTime := 1404172799\<rparr>\<rparr>"

text \<open>A configuration whose common budget account does not exist.\<close>

definition exampleConfigNoBudget :: Config where
  "exampleConfigNoBudget = exampleConfig\<lparr>COMMON_BUDGET_ACCOUNT_ID := ''nobody''\<rparr>"

text \<open>A configuration that excludes no account from the vote.\<close>

definition plainConfig :: Config where
  "plainConfig = exampleConfig\<lparr>COMMON_BUDGET_INFLATION_EXCLUDED_ACCOUNTS := []\<rparr>"

text \<open>A ledger whose accounts hold the largest balance an \<open>int64_t\<close> can hold.\<close>

definition fullAccounts :: Accounts where
  "fullAccounts = [''alice'' \<mapsto> 9223372036854775807, ''budget'' \<mapsto> 9223372036854775807]"

definition fullLedger :: Ledger where
  "fullLedger = \<lparr>header = exampleHeader, accounts = fullAccounts\<rparr>"

text \<open>
  An empty ledger (no coins at all), and a tally row without votes.
\<close>

definition noCoinsLedger :: Ledger where
  "noCoinsLedger = \<lparr>header = exampleHeader\<lparr>totalCoins := 0, feePool := 0\<rparr>,
                     accounts = [''alice'' \<mapsto> 0, ''budget'' \<mapsto> 0]\<rparr>"

definition zeroRows :: "InflationVotes list" where
  "zeroRows = [\<lparr>mVotes = 0, mInflationDest = ''alice''\<rparr>]"

text \<open>
  A ledger whose coins are the fee pool and the balances of the two accounts, with a
  configuration that excludes both accounts from the vote: nothing is left to vote.
\<close>

definition excludedHoldAllLedger :: Ledger where
  "excludedHoldAllLedger = exampleLedger\<lparr>header := exampleHeader\<lparr>totalCoins := 1000012\<rparr>\<rparr>"

definition excludeAllConfig :: Config where
  "excludeAllConfig =
     exampleConfig\<lparr>COMMON_BUDGET_INFLATION_EXCLUDED_ACCOUNTS := [''alice'', ''budget'']\<rparr>"

definition excludeAllConfigNoBudget :: Config where
  "excludeAllConfigNoBudget = excludeAllConfig\<lparr>COMMON_BUDGET_ACCOUNT_ID := ''nobody''\<rparr>"

text \<open>A header whose fee pool is \<open>3 * 10^18\<close>, more than a seventh of \<open>2^64\<close>.\<close>

definition largeFeePoolHeader :: LedgerHeader where
  "largeFeePoolHeader = \<lparr>ledgerVersion = 8, closeTime = 1404172800,
     totalCoins = 5000000000000000000, feePool = 3000000000000000000, inflationSeq = 0\<rparr>"

section \<open>Properties of the loops\<close>

lemma forEach_append:
  "forEach body (xs @ ys) s = (case forEach body xs s of Inl e \<Rightarrow> Inl e | Inr s' \<Rightarrow> forEach body ys s')"
  by (induction xs arbitrary: s) (auto split: sum.splits)

lemma forEach_invariant:
  assumes step: "\<And>w s s'. body w s = Inr s' \<Longrightarrow> I s \<Longrightarrow> I s'"
    and "I s" and "forEach body ws s = Inr s'"
  shows "I s'"
  using assms(2,3)
proof (induction ws arbitrary: s)
  case Nil
  then show ?case by simp
next
  case (Cons w ws)
  from Cons.prems(2) obtain s1 where b: "body w s = Inr s1" and r: "forEach body ws s1 = Inr s'"
    by (auto split: sum.splits)
  have "I s1" using step[OF b Cons.prems(1)] .
  then show ?case using Cons.IH r by blast
qed

lemma sumAmounts_append: "sumAmounts (xs @ [p]) = sumAmounts xs + amount p"
  by (simp add: sumAmounts_def)

lemma origDoleWinner_cases:
  assumes "origDoleWinner amountToDole totalVotes w s = Inr s'"
  obtains (skip) "s' = s"
  | (paid) p winner b where "bigDivide amountToDole (mVotes w) totalVotes = Inr p" "p \<noteq> 0"
      "loadAccount (accts s) (mInflationDest w) = Some winner" "addBalance winner p = Some b"
      "s' = \<lparr>leftAfterDole = leftAfterDole s - p,
            lcl = (if ledgerVersion (lcl s) \<le> 7 then (lcl s)\<lparr>totalCoins := totalCoins (lcl s) + p\<rparr> else lcl s),
            accts = (accts s)(mInflationDest w \<mapsto> b),
            payouts = payouts s @ [\<lparr>destination = mInflationDest w, amount = p\<rparr>]\<rparr>"
  using assms unfolding origDoleWinner_def
  by (auto split: sum.splits if_splits option.splits simp: Let_def)

lemma commonBudgetDoleWinner_cases:
  assumes "commonBudgetDoleWinner amountToDole totalVotes w s = Inr s'"
  obtains (skip) "s' = s"
  | (paid) p winner b where "bigDivide amountToDole (mVotes w) totalVotes = Inr p" "p \<noteq> 0"
      "loadAccount (accts s) (mInflationDest w) = Some winner" "addBalance winner p = Some b"
      "s' = \<lparr>leftAfterDole = leftAfterDole s - p,
            lcl = lcl s,
            accts = (accts s)(mInflationDest w \<mapsto> b),
            payouts = payouts s @ [\<lparr>destination = mInflationDest w, amount = p\<rparr>]\<rparr>"
  using assms unfolding commonBudgetDoleWinner_def
  by (auto split: sum.splits if_splits option.splits simp: Let_def)

lemma origDoleWinner_left:
  assumes "origDoleWinner a v w s = Inr s'"
  shows "leftAfterDole s' + sumAmounts (payouts s') = leftAfterDole s + sumAmounts (payouts s)"
  using assms by (cases rule: origDoleWinner_cases) (simp_all add: sumAmounts_append)

lemma commonBudgetDoleWinner_left:
  assumes "commonBudgetDoleWinner a v w s = Inr s'"
  shows "leftAfterDole s' + sumAmounts (payouts s') = leftAfterDole s + sumAmounts (payouts s)"
  using assms by (cases rule: commonBudgetDoleWinner_cases) (simp_all add: sumAmounts_append)

lemma origDole_left:
  assumes "forEach (origDoleWinner a v) ws s = Inr s'"
  shows "leftAfterDole s' + sumAmounts (payouts s') = leftAfterDole s + sumAmounts (payouts s)"
  by (rule forEach_invariant[where I="\<lambda>x. leftAfterDole x + sumAmounts (payouts x) = leftAfterDole s + sumAmounts (payouts s)", OF _ _ assms])
     (simp_all add: origDoleWinner_left)

lemma commonBudgetDole_left:
  assumes "forEach (commonBudgetDoleWinner a v) ws s = Inr s'"
  shows "leftAfterDole s' + sumAmounts (payouts s') = leftAfterDole s + sumAmounts (payouts s)"
  by (rule forEach_invariant[where I="\<lambda>x. leftAfterDole x + sumAmounts (payouts x) = leftAfterDole s + sumAmounts (payouts s)", OF _ _ assms])
     (simp_all add: commonBudgetDoleWinner_left)


lemma origDoleWinner_header:
  assumes "origDoleWinner a v w s = Inr s'"
  shows "feePool (lcl s') = feePool (lcl s) \<and> inflationSeq (lcl s') = inflationSeq (lcl s)
     \<and> ledgerVersion (lcl s') = ledgerVersion (lcl s) \<and> closeTime (lcl s') = closeTime (lcl s)"
  using assms by (cases rule: origDoleWinner_cases) simp_all

lemma origDole_header:
  assumes "forEach (origDoleWinner a v) ws s = Inr s'"
  shows "feePool (lcl s') = feePool (lcl s) \<and> inflationSeq (lcl s') = inflationSeq (lcl s)
     \<and> ledgerVersion (lcl s') = ledgerVersion (lcl s) \<and> closeTime (lcl s') = closeTime (lcl s)"
  by (rule forEach_invariant[where I="\<lambda>x. feePool (lcl x) = feePool (lcl s) \<and> inflationSeq (lcl x) = inflationSeq (lcl s)
     \<and> ledgerVersion (lcl x) = ledgerVersion (lcl s) \<and> closeTime (lcl x) = closeTime (lcl s)", OF _ _ assms])
     (simp_all add: origDoleWinner_header)

lemma origDoleWinner_totalCoins:
  assumes "origDoleWinner a v w s = Inr s'"
  shows "totalCoins (lcl s') - (if ledgerVersion (lcl s') \<le> 7 then sumAmounts (payouts s') else 0)
       = totalCoins (lcl s) - (if ledgerVersion (lcl s) \<le> 7 then sumAmounts (payouts s) else 0)"
  using assms by (cases rule: origDoleWinner_cases) (simp_all add: sumAmounts_append)

lemma origDole_totalCoins:
  assumes "forEach (origDoleWinner a v) ws s = Inr s'"
  shows "totalCoins (lcl s') - (if ledgerVersion (lcl s') \<le> 7 then sumAmounts (payouts s') else 0)
       = totalCoins (lcl s) - (if ledgerVersion (lcl s) \<le> 7 then sumAmounts (payouts s) else 0)"
  by (rule forEach_invariant[where I="\<lambda>x. totalCoins (lcl x) - (if ledgerVersion (lcl x) \<le> 7 then sumAmounts (payouts x) else 0)
       = totalCoins (lcl s) - (if ledgerVersion (lcl s) \<le> 7 then sumAmounts (payouts s) else 0)", OF _ _ assms])
     (simp_all add: origDoleWinner_totalCoins)

lemma commonBudgetDoleWinner_header:
  assumes "commonBudgetDoleWinner a v w s = Inr s'"
  shows "lcl s' = lcl s"
  using assms by (cases rule: commonBudgetDoleWinner_cases) simp_all

lemma commonBudgetDole_header:
  assumes "forEach (commonBudgetDoleWinner a v) ws s = Inr s'"
  shows "lcl s' = lcl s"
  by (rule forEach_invariant[where I="\<lambda>x. lcl x = lcl s", OF _ _ assms])
     (simp_all add: commonBudgetDoleWinner_header)

lemma origInflationOpFrame_cases:
  assumes "origInflationOpFrame rows st = Inr (r, st')"
  obtains (not_time) "notTime (header st)" "r = INFLATION_NOT_TIME" "st' = st"
  | (success) minBalance inflationAmount s where
      "\<not> notTime (header st)"
      "origMinBalance (header st) = Inr minBalance"
      "origInflationAmount (header st) = Inr inflationAmount"
      "forEach (origDoleWinner (inflationAmount + feePool (header st)) (origTotalVotes (header st)))
         (origWinners minBalance rows)
         \<lparr>leftAfterDole = inflationAmount + feePool (header st),
          lcl = (header st)\<lparr>feePool := 0, inflationSeq := inflationSeq (header st) + 1\<rparr>,
          accts = accounts st, payouts = []\<rparr> = Inr s"
      "r = INFLATION_SUCCESS (payouts s)"
      "st' = \<lparr>header = (if 7 < ledgerVersion (lcl s)
                 then (lcl s)\<lparr>feePool := feePool (lcl s) + leftAfterDole s,
                              totalCoins := totalCoins (lcl s) + inflationAmount\<rparr>
                 else (lcl s)\<lparr>feePool := feePool (lcl s) + leftAfterDole s\<rparr>),
              accounts = accts s\<rparr>"
  using assms unfolding origInflationOpFrame_def
  by (auto split: sum.splits if_splits simp: Let_def)

lemma commonBudgetFinish_cases:
  assumes "commonBudgetFinish cfg s = Inr (r, st')"
  obtains (unresolved) "loadAccount (accts s) (COMMON_BUDGET_ACCOUNT_ID cfg) = None"
      "r = INFLATION_SUCCESS (payouts s)"
      "st' = \<lparr>header = (lcl s)\<lparr>inflationSeq := inflationSeq (lcl s) + 1\<rparr>, accounts = accts s\<rparr>"
  | (resolved) commonBudget b where
      "loadAccount (accts s) (COMMON_BUDGET_ACCOUNT_ID cfg) = Some commonBudget"
      "addBalance commonBudget (leftAfterDole s) = Some b"
      "r = INFLATION_SUCCESS (payouts s @
             [\<lparr>destination = COMMON_BUDGET_ACCOUNT_ID cfg, amount = leftAfterDole s\<rparr>])"
      "st' = \<lparr>header = (lcl s)\<lparr>inflationSeq := inflationSeq (lcl s) + 1\<rparr>,
              accounts = (accts s)(COMMON_BUDGET_ACCOUNT_ID cfg \<mapsto> b)\<rparr>"
  using assms unfolding commonBudgetFinish_def
  by (auto split: option.splits simp: Let_def)

lemma commonBudgetInflationOpFrame_cases:
  assumes "commonBudgetInflationOpFrame cfg rows st = Inr (r, st')"
  obtains (not_time) "notTime (header st)" "r = INFLATION_NOT_TIME" "st' = st"
  | (success) s where "\<not> notTime (header st)" "commonBudgetDole cfg rows st = Inr s"
      "commonBudgetFinish cfg s = Inr (r, st')"
  using assms unfolding commonBudgetInflationOpFrame_def
  by (auto split: sum.splits if_splits)

lemma commonBudgetFinish_success:
  "commonBudgetFinish cfg s = Inr (r, st') \<Longrightarrow> \<exists>ps. r = INFLATION_SUCCESS ps"
  by (erule commonBudgetFinish_cases) simp_all

lemma commonBudgetDole_state:
  assumes "commonBudgetDole cfg rows st = Inr s"
  shows "lcl s = (header st)\<lparr>feePool := 0\<rparr>"
    and "leftAfterDole s + sumAmounts (payouts s) = feePool (header st)"
  using assms commonBudgetDole_header commonBudgetDole_left
  unfolding commonBudgetDole_def Let_def
  by (fastforce simp: sumAmounts_def)+

text \<open>The entry point runs one of the two variants, so what holds of both holds of it.\<close>

lemma doApply_variants:
  "doApply cfg rows st = origInflationOpFrame rows st \<or>
   doApply cfg rows st = commonBudgetInflationOpFrame cfg rows st"
  by (simp add: doApply_def)

section \<open>Arithmetic of the collaborators\<close>

lemma sint_word_of_int_64:
  assumes "0 \<le> x" "x \<le> INT64_MAX"
  shows "sint (word_of_int x :: 64 word) = x"
proof -
  have "- (2 ^ 63) \<le> x" "x < 2 ^ 63" using assms by (simp_all add: INT64_MAX_def)
  then show ?thesis by (simp add: sint_sbintrunc' signed_take_bit_int_eq_self)
qed

lemma bigDivide_Inr:
  assumes "bigDivide A B C = Inr p"
  shows "0 \<le> sint A" "0 \<le> sint B" "0 < sint C"
    "sint p = (sint A * sint B) div sint C" "0 \<le> sint p"
proof -
  from assms show a: "0 \<le> sint A" and b: "0 \<le> sint B" and c: "0 < sint C"
    by (auto simp: bigDivide_def Let_def split: if_splits)
  from assms have le: "(sint A * sint B) div sint C \<le> INT64_MAX"
    and p: "p = word_of_int ((sint A * sint B) div sint C)"
    by (auto simp: bigDivide_def Let_def split: if_splits)
  have nonneg: "0 \<le> (sint A * sint B) div sint C"
    using a b c by (simp add: pos_imp_zdiv_nonneg_iff)
  show "sint p = (sint A * sint B) div sint C"
    unfolding p by (rule sint_word_of_int_64[OF nonneg le])
  then show "0 \<le> sint p" using nonneg by simp
qed

lemma bigDivide_precondition:
  "sint C \<le> 0 \<Longrightarrow> bigDivide A B C = Inl BigDividePrecondition"
  "sint A < 0 \<Longrightarrow> bigDivide A B C = Inl BigDividePrecondition"
  by (simp_all add: bigDivide_def)

lemma inflationTime_exact:
  assumes "1404172800 + uint (inflationSeq h) * 300 < 2 ^ 63"
  shows "sint (inflationTime h) = 1404172800 + uint (inflationSeq h) * 300"
proof -
  have "inflationTime h = word_of_int (1404172800 + uint (inflationSeq h) * 300)"
    by (simp add: inflationTime_def INFLATION_START_TIME_def INFLATION_FREQUENCY_def)
  moreover have "0 \<le> 1404172800 + uint (inflationSeq h) * 300" by simp
  ultimately show ?thesis
    using assms sint_word_of_int_64[of "1404172800 + uint (inflationSeq h) * 300"]
    by (simp add: INT64_MAX_def)
qed


lemma forEach_Inl:
  "forEach body ws1 s0 = Inr s \<Longrightarrow> body w s = Inl e \<Longrightarrow> forEach body (ws1 @ w # ws2) s0 = Inl e"
  by (simp add: forEach_append)

lemma commonBudgetDole_sum:
  assumes "commonBudgetDole cfg rows st = Inr s"
  shows "leftAfterDole s = feePool (header st) - sumAmounts (payouts s)"
  using commonBudgetDole_state(2)[OF assms] by (simp add: algebra_simps)

lemma addBalance_Some: "addBalance balance delta = Some b \<Longrightarrow> b = balance + delta"
  by (simp add: addBalance_def split: if_splits)


lemma origDoleWinner_overflow:
  assumes "bigDivide amountToDole (mVotes w) totalVotes = Inr p" "p \<noteq> 0"
    "loadAccount (accts s) (mInflationDest w) = Some winner" "addBalance winner p = None"
  shows "origDoleWinner amountToDole totalVotes w s = Inl InflationOverflowedDestinationBalance"
  using assms by (simp add: origDoleWinner_def Let_def)

lemma commonBudgetDoleWinner_overflow:
  assumes "bigDivide amountToDole (mVotes w) totalVotes = Inr p" "p \<noteq> 0"
    "loadAccount (accts s) (mInflationDest w) = Some winner" "addBalance winner p = None"
  shows "commonBudgetDoleWinner amountToDole totalVotes w s = Inl InflationOverflowedDestinationBalance"
  using assms by (simp add: commonBudgetDoleWinner_def Let_def)

lemma origInflationOpFrame_Inl:
  assumes "\<not> notTime (header st)" "origMinBalance (header st) = Inr minBalance"
    "origInflationAmount (header st) = Inr inflationAmount"
    "forEach (origDoleWinner (inflationAmount + feePool (header st)) (origTotalVotes (header st)))
       (origWinners minBalance rows)
       \<lparr>leftAfterDole = inflationAmount + feePool (header st),
        lcl = (header st)\<lparr>feePool := 0, inflationSeq := inflationSeq (header st) + 1\<rparr>,
        accts = accounts st, payouts = []\<rparr> = Inl e"
  shows "origInflationOpFrame rows st = Inl e"
  using assms by (simp add: origInflationOpFrame_def Let_def)


lemma forEach_payouts:
  assumes step: "\<And>w s s'. body w s = Inr s' \<Longrightarrow>
            payouts s' = payouts s \<or> (\<exists>x. Q w x \<and> payouts s' = payouts s @ [x])"
    and run: "forEach body ws s = Inr s'"
  shows "\<exists>new. payouts s' = payouts s @ new \<and> (\<forall>x\<in>set new. \<exists>w\<in>set ws. Q w x)"
  using run
proof (induction ws arbitrary: s)
  case Nil
  then show ?case by simp
next
  case (Cons w ws)
  from Cons.prems obtain s1 where b: "body w s = Inr s1" and r: "forEach body ws s1 = Inr s'"
    by (auto split: sum.splits)
  from Cons.IH[OF r] obtain new where
    new: "payouts s' = payouts s1 @ new" "\<forall>x\<in>set new. \<exists>w\<in>set ws. Q w x"
    by blast
  from step[OF b] show ?case
  proof
    assume "payouts s1 = payouts s"
    then show ?thesis using new by auto
  next
    assume "\<exists>x. Q w x \<and> payouts s1 = payouts s @ [x]"
    then obtain x where "Q w x" "payouts s1 = payouts s @ [x]" by blast
    then have "payouts s' = payouts s @ (x # new)" "\<forall>y\<in>set (x # new). \<exists>w'\<in>set (w # ws). Q w' y"
      using new by auto
    then show ?thesis by blast
  qed
qed


lemma set_processForInflation: "set (processForInflation P n rows) \<subseteq> set rows"
  unfolding processForInflation_def using set_take_subset[of n "filter P rows"] by auto

lemma origDoleWinner_computes:
  assumes "origDoleWinner a v w s = Inr s'"
  shows "\<exists>p. bigDivide a (mVotes w) v = Inr p \<and> (p = 0 \<longrightarrow> s' = s)"
  using assms unfolding origDoleWinner_def
  by (auto split: sum.splits if_splits option.splits simp: Let_def)

lemma commonBudgetDoleWinner_computes:
  assumes "commonBudgetDoleWinner a v w s = Inr s'"
  shows "\<exists>p. bigDivide a (mVotes w) v = Inr p \<and> (p = 0 \<longrightarrow> s' = s)"
  using assms unfolding commonBudgetDoleWinner_def
  by (auto split: sum.splits if_splits option.splits simp: Let_def)


lemma forEach_first_Inl:
  "ws \<noteq> [] \<Longrightarrow> (\<And>w s. body w s = Inl e) \<Longrightarrow> forEach body ws s = Inl e"
  by (cases ws) simp_all

lemma doleWinner_precondition:
  assumes "sint totalVotes \<le> 0"
  shows "origDoleWinner amountToDole totalVotes w s = Inl BigDividePrecondition"
    and "commonBudgetDoleWinner amountToDole totalVotes w s = Inl BigDividePrecondition"
  using bigDivide_precondition(1)[OF assms]
  by (simp_all add: origDoleWinner_def commonBudgetDoleWinner_def)

lemma bigDivide_zero: "0 < sint C \<Longrightarrow> 0 \<le> sint B \<Longrightarrow> bigDivide 0 B C = Inr 0"
  by (simp add: bigDivide_def INT64_MAX_def)

lemma orig_parameters_zero:
  assumes "origTotalVotes h = 0"
  shows "origMinBalance h = Inr 0" "origInflationAmount h = Inr 0"
  using assms
  by (simp_all add: origMinBalance_def origInflationAmount_def origTotalVotes_def bigDivide_zero
      TRILLION_def INFLATION_WIN_MIN_PERCENT_def INFLATION_RATE_TRILLIONTHS_def)


section \<open>The example runs\<close>

text \<open>The runs of the operation on the example ledgers, evaluated by rewriting.\<close>

lemmas example_defs = exampleHeader_def exampleAccounts_def exampleLedger_def exampleRows_def
  exampleConfig_def exampleLedgerV7_def exampleLedgerEarly_def exampleConfigNoBudget_def
  fullAccounts_def fullLedger_def noCoinsLedger_def zeroRows_def excludedHoldAllLedger_def
  excludeAllConfig_def excludeAllConfigNoBudget_def largeFeePoolHeader_def
  plainConfig_def

lemmas inflation_defs = origInflationOpFrame_def origMinBalance_def origInflationAmount_def
  origTotalVotes_def origWinners_def origDoleWinner_def
  commonBudgetInflationOpFrame_def commonBudgetDole_def commonBudgetFinish_def
  commonBudgetTotalVotes_def commonBudgetWinners_def commonBudgetAmountToDole_def
  commonBudgetDoleWinner_def processForInflation_def bigDivide_def addBalance_def loadAccount_def
  notTime_def inflationTime_def INFLATION_START_TIME_def INFLATION_FREQUENCY_def
  INFLATION_RATE_TRILLIONTHS_def TRILLION_def INFLATION_WIN_MIN_PERCENT_def
  INFLATION_NUM_WINNERS_def INT64_MAX_def INT64_MIN_def Let_def

lemma example_orig_run:
  "origInflationOpFrame exampleRows exampleLedger =
     Inr (INFLATION_SUCCESS [\<lparr>destination = ''alice'', amount = 114433200000\<rparr>],
          \<lparr>header = \<lparr>ledgerVersion = 8, closeTime = 1404172800, totalCoins = 1000190721000000,
                     feePool = 76288800000, inflationSeq = 1\<rparr>,
           accounts = exampleAccounts(''alice'' \<mapsto> 114433200005)\<rparr>)"
  by (simp add: example_defs inflation_defs)

lemma example_orig_run_v7:
  "origInflationOpFrame exampleRows exampleLedgerV7 =
     Inr (INFLATION_SUCCESS [\<lparr>destination = ''alice'', amount = 114433200000\<rparr>],
          \<lparr>header = \<lparr>ledgerVersion = 7, closeTime = 1404172800, totalCoins = 1000114433200000,
                     feePool = 76288800000, inflationSeq = 1\<rparr>,
           accounts = exampleAccounts(''alice'' \<mapsto> 114433200005)\<rparr>)"
  by (simp add: example_defs inflation_defs)

lemma example_commonBudget_dole:
  "commonBudgetDole exampleConfig exampleRows exampleLedger =
     Inr \<lparr>leftAfterDole = 580000,
          lcl = \<lparr>ledgerVersion = 8, closeTime = 1404172800, totalCoins = 1000000000000000,
                  feePool = 0, inflationSeq = 0\<rparr>,
          accts = exampleAccounts(''alice'' \<mapsto> 420005),
          payouts = [\<lparr>destination = ''alice'', amount = 420000\<rparr>]\<rparr>"
  by (simp add: example_defs inflation_defs)

lemma example_commonBudget_run:
  "commonBudgetInflationOpFrame exampleConfig exampleRows exampleLedger =
     Inr (INFLATION_SUCCESS [\<lparr>destination = ''alice'', amount = 420000\<rparr>,
                             \<lparr>destination = ''budget'', amount = 580000\<rparr>],
          \<lparr>header = \<lparr>ledgerVersion = 8, closeTime = 1404172800, totalCoins = 1000000000000000,
                     feePool = 0, inflationSeq = 1\<rparr>,
           accounts = exampleAccounts(''alice'' \<mapsto> 420005, ''budget'' \<mapsto> 580007)\<rparr>)"
  by (simp add: example_defs inflation_defs)

lemma example_noBudget_dole:
  "commonBudgetDole exampleConfigNoBudget exampleRows exampleLedger =
     Inr \<lparr>leftAfterDole = 580000,
          lcl = \<lparr>ledgerVersion = 8, closeTime = 1404172800, totalCoins = 1000000000000000,
                  feePool = 0, inflationSeq = 0\<rparr>,
          accts = exampleAccounts(''alice'' \<mapsto> 420005),
          payouts = [\<lparr>destination = ''alice'', amount = 420000\<rparr>]\<rparr>"
  by (simp add: example_defs inflation_defs)

lemma example_noBudget_run:
  "commonBudgetInflationOpFrame exampleConfigNoBudget exampleRows exampleLedger =
     Inr (INFLATION_SUCCESS [\<lparr>destination = ''alice'', amount = 420000\<rparr>],
          \<lparr>header = \<lparr>ledgerVersion = 8, closeTime = 1404172800, totalCoins = 1000000000000000,
                     feePool = 0, inflationSeq = 1\<rparr>,
           accounts = exampleAccounts(''alice'' \<mapsto> 420005)\<rparr>)"
  by (simp add: example_defs inflation_defs)

lemma example_early:
  "notTime (header exampleLedgerEarly)"
  "origInflationOpFrame exampleRows exampleLedgerEarly = Inr (INFLATION_NOT_TIME, exampleLedgerEarly)"
  "commonBudgetInflationOpFrame exampleConfig exampleRows exampleLedgerEarly
     = Inr (INFLATION_NOT_TIME, exampleLedgerEarly)"
  by (simp_all add: example_defs inflation_defs)

lemma example_on_time: "\<not> notTime exampleHeader"
  by (simp add: example_defs inflation_defs)

lemma example_full_runs:
  "origInflationOpFrame exampleRows fullLedger = Inl InflationOverflowedDestinationBalance"
  "commonBudgetInflationOpFrame plainConfig exampleRows fullLedger
     = Inl InflationOverflowedDestinationBalance"
  "commonBudgetInflationOpFrame plainConfig [] fullLedger
     = Inl InflationOverflowedCommonBudgetBalance"
  by (simp_all add: example_defs inflation_defs)

lemma example_noCoins_run:
  "origInflationOpFrame [] noCoinsLedger =
     Inr (INFLATION_SUCCESS [],
          \<lparr>header = \<lparr>ledgerVersion = 8, closeTime = 1404172800, totalCoins = 0,
                     feePool = 0, inflationSeq = 1\<rparr>,
           accounts = [''alice'' \<mapsto> 0, ''budget'' \<mapsto> 0]\<rparr>)"
  "origInflationOpFrame zeroRows noCoinsLedger = Inl BigDividePrecondition"
  by (simp_all add: example_defs inflation_defs)

lemma example_excludedHoldAll_run:
  "commonBudgetTotalVotes excludeAllConfig excludedHoldAllLedger = 0"
  "commonBudgetInflationOpFrame excludeAllConfig [] excludedHoldAllLedger =
     Inr (INFLATION_SUCCESS [\<lparr>destination = ''budget'', amount = 1000000\<rparr>],
          \<lparr>header = \<lparr>ledgerVersion = 8, closeTime = 1404172800, totalCoins = 1000012,
                     feePool = 0, inflationSeq = 1\<rparr>,
           accounts = exampleAccounts(''budget'' \<mapsto> 1000007)\<rparr>)"
  "commonBudgetInflationOpFrame excludeAllConfig exampleRows excludedHoldAllLedger
     = Inl BigDividePrecondition"
  by (simp_all add: example_defs inflation_defs)

lemma example_commonBudget_dole_eq:
  "commonBudgetDole exampleConfig exampleRows exampleLedger = Inr s \<Longrightarrow> s = exampleDoleState"
  by (auto simp: example_commonBudget_dole exampleDoleState_def)

lemma example_noBudget_dole_eq:
  "commonBudgetDole exampleConfigNoBudget exampleRows exampleLedger = Inr s \<Longrightarrow> s = exampleDoleState"
  by (auto simp: example_noBudget_dole exampleDoleState_def)

section \<open>The claims\<close>

text \<open>
  Claim C1 as stated does not hold in the common budget scheme.  It adds the sink to the
  sum of the payouts of the result, but the code appends the credit of the common budget
  account to those payouts: on the example ledger the result is alice 420000 and budget
  580000, the account is credited 580000, and the payouts plus the sink are 1580000, not
  the fee pool of 1000000.  When the account does not exist the result holds alice
  420000 only, no sink receives anything, and the payouts are 420000, not the fee pool.
\<close>

theorem payouts_plus_sink_counterexample:
  "commonBudgetInflationOpFrame exampleConfig exampleRows exampleLedger =
     Inr (INFLATION_SUCCESS [\<lparr>destination = ''alice'', amount = 420000\<rparr>,
                             \<lparr>destination = ''budget'', amount = 580000\<rparr>],
          \<lparr>header = \<lparr>ledgerVersion = 8, closeTime = 1404172800, totalCoins = 1000000000000000,
                     feePool = 0, inflationSeq = 1\<rparr>,
           accounts = exampleAccounts(''alice'' \<mapsto> 420005, ''budget'' \<mapsto> 580007)\<rparr>)
   \<and> loadAccount (accounts exampleLedger) ''budget'' = Some 7
   \<and> (580007 :: 64 word) = 7 + 580000
   \<and> feePool (header exampleLedger) = 1000000
   \<and> sumAmounts [\<lparr>destination = ''alice'', amount = 420000\<rparr>,
                  \<lparr>destination = ''budget'', amount = 580000\<rparr>] + 580000 = 1580000
   \<and> sumAmounts [\<lparr>destination = ''alice'', amount = 420000\<rparr>,
                  \<lparr>destination = ''budget'', amount = 580000\<rparr>] + 580000
       \<noteq> feePool (header exampleLedger)
   \<and> commonBudgetInflationOpFrame exampleConfigNoBudget exampleRows exampleLedger =
     Inr (INFLATION_SUCCESS [\<lparr>destination = ''alice'', amount = 420000\<rparr>],
          \<lparr>header = \<lparr>ledgerVersion = 8, closeTime = 1404172800, totalCoins = 1000000000000000,
                     feePool = 0, inflationSeq = 1\<rparr>,
           accounts = exampleAccounts(''alice'' \<mapsto> 420005)\<rparr>)
   \<and> sumAmounts [\<lparr>destination = ''alice'', amount = 420000\<rparr>] + 0 = 420000
   \<and> sumAmounts [\<lparr>destination = ''alice'', amount = 420000\<rparr>] + 0
       \<noteq> feePool (header exampleLedger)"
proof -
  have "loadAccount (accounts exampleLedger) ''budget'' = Some 7"
    "feePool (header exampleLedger) = 1000000"
    by (simp_all add: example_defs loadAccount_def)
  then show ?thesis
    using example_commonBudget_run example_noBudget_run by (simp add: sumAmounts_def)
qed

text \<open>
  Claim C1, as amended.  A run that returns \<open>INFLATION_SUCCESS\<close> accounts for the pool
  as follows, in the 64-bit arithmetic of the code.  Legacy scheme: the amounts of the
  payouts plus the fee pool after the run (the pool was reset to 0, so this is what was
  put back) are \<open>amountToDole = inflationAmount + feePool\<close> before the reset.  Common
  budget scheme: the fee pool after the run is 0.  When the common budget account
  exists, the payouts of the result are those of the winners followed by the sink, whose
  amount is the fee pool before the reset minus the payouts of the winners, so the
  amounts of the result alone sum to the fee pool before the reset.  When it does not
  exist, the result holds the payouts of the winners only, the accounts are those the
  loop over the winners left, and the rest (the fee pool before the reset minus the
  payouts of the result) is credited to nobody.
\<close>

theorem payouts_account_for_pool:
  "(origInflationOpFrame rows st = Inr (INFLATION_SUCCESS ps, st') \<longrightarrow>
      (\<exists>inflationAmount. origInflationAmount (header st) = Inr inflationAmount \<and>
         sumAmounts ps + feePool (header st') = inflationAmount + feePool (header st)))
   \<and> (commonBudgetInflationOpFrame cfg rows st = Inr (INFLATION_SUCCESS ps, st') \<longrightarrow>
      feePool (header st') = 0 \<and>
      (\<exists>s. commonBudgetDole cfg rows st = Inr s \<and>
         (case loadAccount (accts s) (COMMON_BUDGET_ACCOUNT_ID cfg) of
            Some commonBudget \<Rightarrow>
              ps = payouts s @ [\<lparr>destination = COMMON_BUDGET_ACCOUNT_ID cfg,
                                 amount = feePool (header st) - sumAmounts (payouts s)\<rparr>]
              \<and> sumAmounts ps = feePool (header st)
          | None \<Rightarrow>
              ps = payouts s \<and> accounts st' = accts s
              \<and> leftAfterDole s = feePool (header st) - sumAmounts ps)))"
proof (intro conjI impI)
  assume run: "origInflationOpFrame rows st = Inr (INFLATION_SUCCESS ps, st')"
  then show "\<exists>inflationAmount. origInflationAmount (header st) = Inr inflationAmount \<and>
         sumAmounts ps + feePool (header st') = inflationAmount + feePool (header st)"
  proof (cases rule: origInflationOpFrame_cases)
    case not_time
    then show ?thesis by simp
  next
    case (success minBalance inflationAmount s)
    have left: "leftAfterDole s + sumAmounts (payouts s) = inflationAmount + feePool (header st)"
      using origDole_left[OF success(4)] by (simp add: sumAmounts_def)
    have fp: "feePool (lcl s) = 0"
      using origDole_header[OF success(4)] by simp
    have "feePool (header st') = leftAfterDole s"
      using success(6) fp by simp
    moreover have "ps = payouts s" using success(5) by simp
    ultimately show ?thesis using left success(3) by (simp add: add.commute)
  qed
next
  assume run: "commonBudgetInflationOpFrame cfg rows st = Inr (INFLATION_SUCCESS ps, st')"
  then show "feePool (header st') = 0"
  proof (cases rule: commonBudgetInflationOpFrame_cases)
    case not_time
    then show ?thesis by simp
  next
    case (success s)
    have h: "lcl s = (header st)\<lparr>feePool := 0\<rparr>"
      using commonBudgetDole_state(1)[OF success(2)] .
    from success(3) show ?thesis
      by (cases rule: commonBudgetFinish_cases) (simp_all add: h)
  qed
next
  assume run: "commonBudgetInflationOpFrame cfg rows st = Inr (INFLATION_SUCCESS ps, st')"
  then show "\<exists>s. commonBudgetDole cfg rows st = Inr s \<and>
         (case loadAccount (accts s) (COMMON_BUDGET_ACCOUNT_ID cfg) of
            Some commonBudget \<Rightarrow>
              ps = payouts s @ [\<lparr>destination = COMMON_BUDGET_ACCOUNT_ID cfg,
                                 amount = feePool (header st) - sumAmounts (payouts s)\<rparr>]
              \<and> sumAmounts ps = feePool (header st)
          | None \<Rightarrow>
              ps = payouts s \<and> accounts st' = accts s
              \<and> leftAfterDole s = feePool (header st) - sumAmounts ps)"
  proof (cases rule: commonBudgetInflationOpFrame_cases)
    case not_time
    then show ?thesis by simp
  next
    case (success s)
    have left: "leftAfterDole s = feePool (header st) - sumAmounts (payouts s)"
      using commonBudgetDole_sum[OF success(2)] .
    from success(3) show ?thesis
    proof (cases rule: commonBudgetFinish_cases)
      case unresolved
      then show ?thesis using success(2) left by simp
    next
      case (resolved commonBudget b)
      then show ?thesis using success(2) left by (simp add: sumAmounts_append)
    qed
  qed
qed

theorem payouts_account_for_pool_witness:
  "origInflationOpFrame exampleRows exampleLedger =
     Inr (INFLATION_SUCCESS [\<lparr>destination = ''alice'', amount = 114433200000\<rparr>],
          \<lparr>header = \<lparr>ledgerVersion = 8, closeTime = 1404172800, totalCoins = 1000190721000000,
                     feePool = 76288800000, inflationSeq = 1\<rparr>,
           accounts = exampleAccounts(''alice'' \<mapsto> 114433200005)\<rparr>)
   \<and> (\<exists>inflationAmount. origInflationAmount exampleHeader = Inr inflationAmount \<and>
         sumAmounts [\<lparr>destination = ''alice'', amount = 114433200000\<rparr>] + 76288800000
           = inflationAmount + 1000000)
   \<and> commonBudgetInflationOpFrame exampleConfig exampleRows exampleLedger =
     Inr (INFLATION_SUCCESS [\<lparr>destination = ''alice'', amount = 420000\<rparr>,
                             \<lparr>destination = ''budget'', amount = 580000\<rparr>],
          \<lparr>header = \<lparr>ledgerVersion = 8, closeTime = 1404172800, totalCoins = 1000000000000000,
                     feePool = 0, inflationSeq = 1\<rparr>,
           accounts = exampleAccounts(''alice'' \<mapsto> 420005, ''budget'' \<mapsto> 580007)\<rparr>)
   \<and> sumAmounts [\<lparr>destination = ''alice'', amount = 420000\<rparr>,
                  \<lparr>destination = ''budget'', amount = 580000\<rparr>] = feePool exampleHeader
   \<and> commonBudgetInflationOpFrame exampleConfigNoBudget exampleRows exampleLedger =
     Inr (INFLATION_SUCCESS [\<lparr>destination = ''alice'', amount = 420000\<rparr>],
          \<lparr>header = \<lparr>ledgerVersion = 8, closeTime = 1404172800, totalCoins = 1000000000000000,
                     feePool = 0, inflationSeq = 1\<rparr>,
           accounts = exampleAccounts(''alice'' \<mapsto> 420005)\<rparr>)
   \<and> (580000 :: 64 word)
       = feePool exampleHeader - sumAmounts [\<lparr>destination = ''alice'', amount = 420000\<rparr>]"
proof -
  note claim = payouts_account_for_pool
  have legacy: "\<exists>inflationAmount. origInflationAmount exampleHeader = Inr inflationAmount \<and>
         sumAmounts [\<lparr>destination = ''alice'', amount = 114433200000\<rparr>] + 76288800000
           = inflationAmount + 1000000"
    using claim[THEN conjunct1, THEN mp, OF example_orig_run]
    by (simp add: exampleLedger_def exampleHeader_def)
  have resolved: "sumAmounts [\<lparr>destination = ''alice'', amount = 420000\<rparr>,
                  \<lparr>destination = ''budget'', amount = 580000\<rparr>] = feePool exampleHeader"
  proof -
    from claim[THEN conjunct2, THEN mp, OF example_commonBudget_run]
    obtain s where s: "commonBudgetDole exampleConfig exampleRows exampleLedger = Inr s"
      and c: "case loadAccount (accts s) (COMMON_BUDGET_ACCOUNT_ID exampleConfig) of
            Some commonBudget \<Rightarrow>
              [\<lparr>destination = ''alice'', amount = 420000\<rparr>,
               \<lparr>destination = ''budget'', amount = 580000\<rparr>]
                = payouts s @ [\<lparr>destination = COMMON_BUDGET_ACCOUNT_ID exampleConfig,
                     amount = feePool (header exampleLedger) - sumAmounts (payouts s)\<rparr>]
              \<and> sumAmounts [\<lparr>destination = ''alice'', amount = 420000\<rparr>,
                             \<lparr>destination = ''budget'', amount = 580000\<rparr>]
                  = feePool (header exampleLedger)
          | None \<Rightarrow>
              [\<lparr>destination = ''alice'', amount = 420000\<rparr>,
               \<lparr>destination = ''budget'', amount = 580000\<rparr>] = payouts s
              \<and> accounts \<lparr>header = \<lparr>ledgerVersion = 8, closeTime = 1404172800,
                     totalCoins = 1000000000000000, feePool = 0, inflationSeq = 1\<rparr>,
                   accounts = exampleAccounts(''alice'' \<mapsto> 420005, ''budget'' \<mapsto> 580007)\<rparr>
                  = accts s
              \<and> leftAfterDole s = feePool (header exampleLedger)
                  - sumAmounts [\<lparr>destination = ''alice'', amount = 420000\<rparr>,
                                \<lparr>destination = ''budget'', amount = 580000\<rparr>]"
      by blast
    have "s = exampleDoleState" using s by (rule example_commonBudget_dole_eq)
    then show ?thesis
      using c by (simp add: exampleDoleState_def loadAccount_def exampleAccounts_def
          exampleConfig_def exampleLedger_def)
  qed
  have unresolved: "(580000 :: 64 word)
       = feePool exampleHeader - sumAmounts [\<lparr>destination = ''alice'', amount = 420000\<rparr>]"
  proof -
    from claim[THEN conjunct2, THEN mp, OF example_noBudget_run]
    obtain s where s: "commonBudgetDole exampleConfigNoBudget exampleRows exampleLedger = Inr s"
      and c: "case loadAccount (accts s) (COMMON_BUDGET_ACCOUNT_ID exampleConfigNoBudget) of
            Some commonBudget \<Rightarrow>
              [\<lparr>destination = ''alice'', amount = 420000\<rparr>]
                = payouts s @ [\<lparr>destination = COMMON_BUDGET_ACCOUNT_ID exampleConfigNoBudget,
                     amount = feePool (header exampleLedger) - sumAmounts (payouts s)\<rparr>]
              \<and> sumAmounts [\<lparr>destination = ''alice'', amount = 420000\<rparr>]
                  = feePool (header exampleLedger)
          | None \<Rightarrow>
              [\<lparr>destination = ''alice'', amount = 420000\<rparr>] = payouts s
              \<and> accounts \<lparr>header = \<lparr>ledgerVersion = 8, closeTime = 1404172800,
                     totalCoins = 1000000000000000, feePool = 0, inflationSeq = 1\<rparr>,
                   accounts = exampleAccounts(''alice'' \<mapsto> 420005)\<rparr>
                  = accts s
              \<and> leftAfterDole s = feePool (header exampleLedger)
                  - sumAmounts [\<lparr>destination = ''alice'', amount = 420000\<rparr>]"
      by blast
    have "s = exampleDoleState" using s by (rule example_noBudget_dole_eq)
    then show ?thesis
      using c by (simp add: exampleDoleState_def loadAccount_def exampleAccounts_def
          exampleConfig_def exampleConfigNoBudget_def exampleLedger_def)
  qed
  show ?thesis
    using legacy resolved unresolved example_orig_run example_commonBudget_run example_noBudget_run
    by blast
qed

text \<open>
  Claim C2.  Legacy scheme, after \<open>INFLATION_SUCCESS\<close>: at a ledger version of at most
  7 the new \<open>totalCoins\<close> is the old one plus the sum of the payouts that were
  credited (the loop adds each of them as it is credited); at a later version it is the
  old one plus \<open>inflationAmount\<close>, added once after the loop, whatever was paid.
  The sums are those of the 64-bit arithmetic of the code.
\<close>

theorem totalCoins_after_legacy_success:
  "origInflationOpFrame rows st = Inr (INFLATION_SUCCESS ps, st') \<longrightarrow>
     (if ledgerVersion (header st) \<le> 7
      then totalCoins (header st') = totalCoins (header st) + sumAmounts ps
      else \<exists>inflationAmount. origInflationAmount (header st) = Inr inflationAmount \<and>
             totalCoins (header st') = totalCoins (header st) + inflationAmount)"
proof
  assume "origInflationOpFrame rows st = Inr (INFLATION_SUCCESS ps, st')"
  then show "if ledgerVersion (header st) \<le> 7
      then totalCoins (header st') = totalCoins (header st) + sumAmounts ps
      else \<exists>inflationAmount. origInflationAmount (header st) = Inr inflationAmount \<and>
             totalCoins (header st') = totalCoins (header st) + inflationAmount"
  proof (cases rule: origInflationOpFrame_cases)
    case not_time
    then show ?thesis by simp
  next
    case (success minBalance inflationAmount s)
    have ver: "ledgerVersion (lcl s) = ledgerVersion (header st)"
      using origDole_header[OF success(4)] by simp
    have tc: "totalCoins (lcl s) - (if ledgerVersion (header st) \<le> 7 then sumAmounts (payouts s) else 0)
        = totalCoins (header st)"
      using origDole_totalCoins[OF success(4)] ver by (simp add: sumAmounts_def)
    have ps: "ps = payouts s" using success(5) by simp
    show ?thesis
    proof (cases "ledgerVersion (header st) \<le> 7")
      case True
      then have "\<not> 7 < ledgerVersion (lcl s)" using ver by (simp add: not_less)
      then have "totalCoins (header st') = totalCoins (lcl s)" using success(6) by simp
      moreover have "totalCoins (lcl s) = totalCoins (header st) + sumAmounts (payouts s)"
        using tc True by (simp add: algebra_simps)
      ultimately show ?thesis using True ps by simp
    next
      case False
      then have "7 < ledgerVersion (lcl s)" using ver by (simp add: not_le)
      then have "totalCoins (header st') = totalCoins (lcl s) + inflationAmount"
        using success(6) by simp
      moreover have "totalCoins (lcl s) = totalCoins (header st)" using tc False by simp
      ultimately show ?thesis using False success(3) by simp
    qed
  qed
qed

theorem totalCoins_after_legacy_success_witness:
  "origInflationOpFrame exampleRows exampleLedgerV7 =
     Inr (INFLATION_SUCCESS [\<lparr>destination = ''alice'', amount = 114433200000\<rparr>],
          \<lparr>header = \<lparr>ledgerVersion = 7, closeTime = 1404172800, totalCoins = 1000114433200000,
                     feePool = 76288800000, inflationSeq = 1\<rparr>,
           accounts = exampleAccounts(''alice'' \<mapsto> 114433200005)\<rparr>)
   \<and> (1000114433200000 :: 64 word)
       = 1000000000000000 + sumAmounts [\<lparr>destination = ''alice'', amount = 114433200000\<rparr>]
   \<and> origInflationOpFrame exampleRows exampleLedger =
     Inr (INFLATION_SUCCESS [\<lparr>destination = ''alice'', amount = 114433200000\<rparr>],
          \<lparr>header = \<lparr>ledgerVersion = 8, closeTime = 1404172800, totalCoins = 1000190721000000,
                     feePool = 76288800000, inflationSeq = 1\<rparr>,
           accounts = exampleAccounts(''alice'' \<mapsto> 114433200005)\<rparr>)
   \<and> (\<exists>inflationAmount. origInflationAmount exampleHeader = Inr inflationAmount \<and>
         (1000190721000000 :: 64 word) = 1000000000000000 + inflationAmount)"
proof -
  have v7: "(1000114433200000 :: 64 word)
       = 1000000000000000 + sumAmounts [\<lparr>destination = ''alice'', amount = 114433200000\<rparr>]"
    using totalCoins_after_legacy_success[THEN mp, OF example_orig_run_v7]
    by (simp add: exampleLedgerV7_def exampleLedger_def exampleHeader_def)
  have v8: "\<exists>inflationAmount. origInflationAmount exampleHeader = Inr inflationAmount \<and>
         (1000190721000000 :: 64 word) = 1000000000000000 + inflationAmount"
    using totalCoins_after_legacy_success[THEN mp, OF example_orig_run]
    by (simp add: exampleLedger_def exampleHeader_def)
  show ?thesis using v7 v8 example_orig_run_v7 example_orig_run by blast
qed

text \<open>
  Claim C9.  In both schemes \<open>inflationSeq\<close> is one more after a run that returns
  \<open>INFLATION_SUCCESS\<close> (the \<open>++\<close> of the 64-bit counter) and is unchanged after a
  run that returns \<open>INFLATION_NOT_TIME\<close>.
\<close>

theorem inflationSeq_step:
  "(origInflationOpFrame rows st = Inr (r, st') \<longrightarrow>
      inflationSeq (header st') =
        (case r of INFLATION_NOT_TIME \<Rightarrow> inflationSeq (header st)
         | INFLATION_SUCCESS ps \<Rightarrow> inflationSeq (header st) + 1))
   \<and> (commonBudgetInflationOpFrame cfg rows st = Inr (r, st') \<longrightarrow>
      inflationSeq (header st') =
        (case r of INFLATION_NOT_TIME \<Rightarrow> inflationSeq (header st)
         | INFLATION_SUCCESS ps \<Rightarrow> inflationSeq (header st) + 1))"
proof (intro conjI impI)
  assume "origInflationOpFrame rows st = Inr (r, st')"
  then show "inflationSeq (header st') =
        (case r of INFLATION_NOT_TIME \<Rightarrow> inflationSeq (header st)
         | INFLATION_SUCCESS ps \<Rightarrow> inflationSeq (header st) + 1)"
  proof (cases rule: origInflationOpFrame_cases)
    case not_time
    then show ?thesis by simp
  next
    case (success minBalance inflationAmount s)
    have "inflationSeq (lcl s) = inflationSeq (header st) + 1"
      using origDole_header[OF success(4)] by simp
    then show ?thesis using success(5,6) by simp
  qed
next
  assume "commonBudgetInflationOpFrame cfg rows st = Inr (r, st')"
  then show "inflationSeq (header st') =
        (case r of INFLATION_NOT_TIME \<Rightarrow> inflationSeq (header st)
         | INFLATION_SUCCESS ps \<Rightarrow> inflationSeq (header st) + 1)"
  proof (cases rule: commonBudgetInflationOpFrame_cases)
    case not_time
    then show ?thesis by simp
  next
    case (success s)
    have h: "lcl s = (header st)\<lparr>feePool := 0\<rparr>"
      using commonBudgetDole_state(1)[OF success(2)] .
    from success(3) show ?thesis
      by (cases rule: commonBudgetFinish_cases) (simp_all add: h)
  qed
qed

theorem inflationSeq_step_witness:
  "origInflationOpFrame exampleRows exampleLedger =
     Inr (INFLATION_SUCCESS [\<lparr>destination = ''alice'', amount = 114433200000\<rparr>],
          \<lparr>header = \<lparr>ledgerVersion = 8, closeTime = 1404172800, totalCoins = 1000190721000000,
                     feePool = 76288800000, inflationSeq = 1\<rparr>,
           accounts = exampleAccounts(''alice'' \<mapsto> 114433200005)\<rparr>)
   \<and> (1 :: 64 word) = inflationSeq exampleHeader + 1
   \<and> commonBudgetInflationOpFrame exampleConfig exampleRows exampleLedger =
     Inr (INFLATION_SUCCESS [\<lparr>destination = ''alice'', amount = 420000\<rparr>,
                             \<lparr>destination = ''budget'', amount = 580000\<rparr>],
          \<lparr>header = \<lparr>ledgerVersion = 8, closeTime = 1404172800, totalCoins = 1000000000000000,
                     feePool = 0, inflationSeq = 1\<rparr>,
           accounts = exampleAccounts(''alice'' \<mapsto> 420005, ''budget'' \<mapsto> 580007)\<rparr>)
   \<and> origInflationOpFrame exampleRows exampleLedgerEarly = Inr (INFLATION_NOT_TIME, exampleLedgerEarly)
   \<and> commonBudgetInflationOpFrame exampleConfig exampleRows exampleLedgerEarly
       = Inr (INFLATION_NOT_TIME, exampleLedgerEarly)
   \<and> inflationSeq (header exampleLedgerEarly) = inflationSeq exampleHeader"
proof -
  have success: "(1 :: 64 word) = inflationSeq exampleHeader + 1"
    using inflationSeq_step[THEN conjunct1, THEN mp, OF example_orig_run]
      inflationSeq_step[THEN conjunct2, THEN mp, OF example_commonBudget_run]
    by (simp add: exampleLedger_def)
  have early: "inflationSeq (header exampleLedgerEarly) = inflationSeq exampleHeader"
    using inflationSeq_step[THEN conjunct1, THEN mp, OF example_early(2)]
      inflationSeq_step[THEN conjunct2, THEN mp, OF example_early(3)]
    by (simp add: exampleLedgerEarly_def exampleLedger_def)
  show ?thesis
    using success early example_orig_run example_commonBudget_run example_early(2,3) by blast
qed

text \<open>
  Claim C3.  In both schemes the run returns \<open>INFLATION_NOT_TIME\<close> exactly when the
  close time is before the time of the next inflation, both read as \<open>time_t\<close>, and
  then the ledger (header and accounts) is returned as it was.  The time of the next
  inflation is the sum the code computes in 64 bits; it is the integer
  \<open>INFLATION_START_TIME + inflationSeq * INFLATION_FREQUENCY\<close> as long as that number
  fits \<open>time_t\<close>.
\<close>

theorem not_time_iff_and_nothing_mutated:
  "((\<exists>st'. origInflationOpFrame rows st = Inr (INFLATION_NOT_TIME, st'))
      = (sint (closeTime (header st)) < sint (inflationTime (header st))))
   \<and> ((\<exists>st'. commonBudgetInflationOpFrame cfg rows st = Inr (INFLATION_NOT_TIME, st'))
      = (sint (closeTime (header st)) < sint (inflationTime (header st))))
   \<and> (\<forall>st'. origInflationOpFrame rows st = Inr (INFLATION_NOT_TIME, st') \<longrightarrow> st' = st)
   \<and> (\<forall>st'. commonBudgetInflationOpFrame cfg rows st = Inr (INFLATION_NOT_TIME, st') \<longrightarrow> st' = st)
   \<and> (1404172800 + uint (inflationSeq (header st)) * 300 < 2 ^ 63 \<longrightarrow>
        sint (inflationTime (header st)) = 1404172800 + uint (inflationSeq (header st)) * 300)"
proof (intro conjI allI impI)
  show "(\<exists>st'. origInflationOpFrame rows st = Inr (INFLATION_NOT_TIME, st'))
      = (sint (closeTime (header st)) < sint (inflationTime (header st)))"
  proof
    assume "\<exists>st'. origInflationOpFrame rows st = Inr (INFLATION_NOT_TIME, st')"
    then obtain st' where "origInflationOpFrame rows st = Inr (INFLATION_NOT_TIME, st')" ..
    then show "sint (closeTime (header st)) < sint (inflationTime (header st))"
      by (cases rule: origInflationOpFrame_cases) (simp_all add: notTime_def)
  next
    assume "sint (closeTime (header st)) < sint (inflationTime (header st))"
    then have "origInflationOpFrame rows st = Inr (INFLATION_NOT_TIME, st)"
      by (simp add: origInflationOpFrame_def notTime_def)
    then show "\<exists>st'. origInflationOpFrame rows st = Inr (INFLATION_NOT_TIME, st')" ..
  qed
next
  show "(\<exists>st'. commonBudgetInflationOpFrame cfg rows st = Inr (INFLATION_NOT_TIME, st'))
      = (sint (closeTime (header st)) < sint (inflationTime (header st)))"
  proof
    assume "\<exists>st'. commonBudgetInflationOpFrame cfg rows st = Inr (INFLATION_NOT_TIME, st')"
    then obtain st' where "commonBudgetInflationOpFrame cfg rows st = Inr (INFLATION_NOT_TIME, st')" ..
    then show "sint (closeTime (header st)) < sint (inflationTime (header st))"
    proof (cases rule: commonBudgetInflationOpFrame_cases)
      case not_time
      then show ?thesis by (simp add: notTime_def)
    next
      case (success s)
      then show ?thesis using commonBudgetFinish_success by blast
    qed
  next
    assume "sint (closeTime (header st)) < sint (inflationTime (header st))"
    then have "commonBudgetInflationOpFrame cfg rows st = Inr (INFLATION_NOT_TIME, st)"
      by (simp add: commonBudgetInflationOpFrame_def notTime_def)
    then show "\<exists>st'. commonBudgetInflationOpFrame cfg rows st = Inr (INFLATION_NOT_TIME, st')" ..
  qed
next
  fix st' assume "origInflationOpFrame rows st = Inr (INFLATION_NOT_TIME, st')"
  then show "st' = st" by (cases rule: origInflationOpFrame_cases) simp_all
next
  fix st' assume "commonBudgetInflationOpFrame cfg rows st = Inr (INFLATION_NOT_TIME, st')"
  then show "st' = st"
  proof (cases rule: commonBudgetInflationOpFrame_cases)
    case not_time
    then show ?thesis by simp
  next
    case (success s)
    then show ?thesis using commonBudgetFinish_success by blast
  qed
next
  assume "1404172800 + uint (inflationSeq (header st)) * 300 < 2 ^ 63"
  then show "sint (inflationTime (header st)) = 1404172800 + uint (inflationSeq (header st)) * 300"
    by (rule inflationTime_exact)
qed

theorem not_time_iff_and_nothing_mutated_witness:
  "origInflationOpFrame exampleRows exampleLedgerEarly = Inr (INFLATION_NOT_TIME, exampleLedgerEarly)
   \<and> commonBudgetInflationOpFrame exampleConfig exampleRows exampleLedgerEarly
       = Inr (INFLATION_NOT_TIME, exampleLedgerEarly)
   \<and> sint (closeTime (header exampleLedgerEarly)) < sint (inflationTime (header exampleLedgerEarly))
   \<and> sint (inflationTime (header exampleLedgerEarly)) = 1404172800
   \<and> \<not> sint (closeTime (header exampleLedger)) < sint (inflationTime (header exampleLedger))
   \<and> \<not> (\<exists>st'. origInflationOpFrame exampleRows exampleLedger = Inr (INFLATION_NOT_TIME, st'))
   \<and> \<not> (\<exists>st'. commonBudgetInflationOpFrame exampleConfig exampleRows exampleLedger
                  = Inr (INFLATION_NOT_TIME, st'))"
proof -
  note claim = not_time_iff_and_nothing_mutated
  have early: "sint (closeTime (header exampleLedgerEarly)) < sint (inflationTime (header exampleLedgerEarly))"
    using claim[of exampleRows exampleLedgerEarly exampleConfig] example_early(2) by blast
  have due: "sint (inflationTime (header exampleLedgerEarly)) = 1404172800"
    using claim[of exampleRows exampleLedgerEarly exampleConfig]
    by (simp add: exampleLedgerEarly_def exampleLedger_def exampleHeader_def)
  have on_time: "\<not> sint (closeTime (header exampleLedger)) < sint (inflationTime (header exampleLedger))"
    using example_on_time by (simp add: notTime_def exampleLedger_def)
  then have "\<not> (\<exists>st'. origInflationOpFrame exampleRows exampleLedger = Inr (INFLATION_NOT_TIME, st'))"
    and "\<not> (\<exists>st'. commonBudgetInflationOpFrame exampleConfig exampleRows exampleLedger
                  = Inr (INFLATION_NOT_TIME, st'))"
    using claim[of exampleRows exampleLedger exampleConfig] by blast+
  then show ?thesis using early due on_time example_early(2,3) by blast
qed

text \<open>
  Claim C4.  A credit whose \<open>addBalance\<close> reports an overflow ends the run with an
  exception, never with a result: for the winner at any position of the loop, in both
  schemes, the run ends with \<open>InflationOverflowedDestinationBalance\<close>, and for the common
  budget account with \<open>InflationOverflowedCommonBudgetBalance\<close>.
\<close>

theorem credit_overflow_is_fatal:
  "(\<not> notTime (header st) \<and> origMinBalance (header st) = Inr minBalance \<and>
    origInflationAmount (header st) = Inr inflationAmount \<and>
    origWinners minBalance rows = ws1 @ w # ws2 \<and>
    forEach (origDoleWinner (inflationAmount + feePool (header st)) (origTotalVotes (header st))) ws1
       \<lparr>leftAfterDole = inflationAmount + feePool (header st),
        lcl = (header st)\<lparr>feePool := 0, inflationSeq := inflationSeq (header st) + 1\<rparr>,
        accts = accounts st, payouts = []\<rparr> = Inr s \<and>
    bigDivide (inflationAmount + feePool (header st)) (mVotes w) (origTotalVotes (header st)) = Inr p \<and>
    p \<noteq> 0 \<and> loadAccount (accts s) (mInflationDest w) = Some winner \<and> addBalance winner p = None
    \<longrightarrow> origInflationOpFrame rows st = Inl InflationOverflowedDestinationBalance)
   \<and>
   (\<not> notTime (header st) \<and> commonBudgetWinners cfg rows = ws1 @ w # ws2 \<and>
    forEach (commonBudgetDoleWinner (commonBudgetAmountToDole (header st))
               (commonBudgetTotalVotes cfg st)) ws1
       \<lparr>leftAfterDole = feePool (header st), lcl = (header st)\<lparr>feePool := 0\<rparr>,
        accts = accounts st, payouts = []\<rparr> = Inr s \<and>
    bigDivide (commonBudgetAmountToDole (header st)) (mVotes w) (commonBudgetTotalVotes cfg st) = Inr p \<and>
    p \<noteq> 0 \<and> loadAccount (accts s) (mInflationDest w) = Some winner \<and> addBalance winner p = None
    \<longrightarrow> commonBudgetInflationOpFrame cfg rows st = Inl InflationOverflowedDestinationBalance)
   \<and>
   (\<not> notTime (header st) \<and> commonBudgetDole cfg rows st = Inr s \<and>
    loadAccount (accts s) (COMMON_BUDGET_ACCOUNT_ID cfg) = Some commonBudget \<and>
    addBalance commonBudget (leftAfterDole s) = None
    \<longrightarrow> commonBudgetInflationOpFrame cfg rows st = Inl InflationOverflowedCommonBudgetBalance)"
proof (intro conjI impI)
  assume a: "\<not> notTime (header st) \<and> origMinBalance (header st) = Inr minBalance \<and>
    origInflationAmount (header st) = Inr inflationAmount \<and>
    origWinners minBalance rows = ws1 @ w # ws2 \<and>
    forEach (origDoleWinner (inflationAmount + feePool (header st)) (origTotalVotes (header st))) ws1
       \<lparr>leftAfterDole = inflationAmount + feePool (header st),
        lcl = (header st)\<lparr>feePool := 0, inflationSeq := inflationSeq (header st) + 1\<rparr>,
        accts = accounts st, payouts = []\<rparr> = Inr s \<and>
    bigDivide (inflationAmount + feePool (header st)) (mVotes w) (origTotalVotes (header st)) = Inr p \<and>
    p \<noteq> 0 \<and> loadAccount (accts s) (mInflationDest w) = Some winner \<and> addBalance winner p = None"
  then have step: "origDoleWinner (inflationAmount + feePool (header st)) (origTotalVotes (header st)) w s
      = Inl InflationOverflowedDestinationBalance"
    using origDoleWinner_overflow by blast
  from a have loop: "forEach (origDoleWinner (inflationAmount + feePool (header st))
         (origTotalVotes (header st))) ws1
       \<lparr>leftAfterDole = inflationAmount + feePool (header st),
        lcl = (header st)\<lparr>feePool := 0, inflationSeq := inflationSeq (header st) + 1\<rparr>,
        accts = accounts st, payouts = []\<rparr> = Inr s"
    by simp
  have "forEach (origDoleWinner (inflationAmount + feePool (header st)) (origTotalVotes (header st)))
       (origWinners minBalance rows)
       \<lparr>leftAfterDole = inflationAmount + feePool (header st),
        lcl = (header st)\<lparr>feePool := 0, inflationSeq := inflationSeq (header st) + 1\<rparr>,
        accts = accounts st, payouts = []\<rparr> = Inl InflationOverflowedDestinationBalance"
    using a forEach_Inl[OF loop step, of ws2] by simp
  then show "origInflationOpFrame rows st = Inl InflationOverflowedDestinationBalance"
    using a origInflationOpFrame_Inl by blast
next
  assume a: "\<not> notTime (header st) \<and> commonBudgetWinners cfg rows = ws1 @ w # ws2 \<and>
    forEach (commonBudgetDoleWinner (commonBudgetAmountToDole (header st))
               (commonBudgetTotalVotes cfg st)) ws1
       \<lparr>leftAfterDole = feePool (header st), lcl = (header st)\<lparr>feePool := 0\<rparr>,
        accts = accounts st, payouts = []\<rparr> = Inr s \<and>
    bigDivide (commonBudgetAmountToDole (header st)) (mVotes w) (commonBudgetTotalVotes cfg st) = Inr p \<and>
    p \<noteq> 0 \<and> loadAccount (accts s) (mInflationDest w) = Some winner \<and> addBalance winner p = None"
  then have step: "commonBudgetDoleWinner (commonBudgetAmountToDole (header st))
               (commonBudgetTotalVotes cfg st) w s = Inl InflationOverflowedDestinationBalance"
    using commonBudgetDoleWinner_overflow by blast
  from a have loop: "forEach (commonBudgetDoleWinner (commonBudgetAmountToDole (header st))
               (commonBudgetTotalVotes cfg st)) ws1
       \<lparr>leftAfterDole = feePool (header st), lcl = (header st)\<lparr>feePool := 0\<rparr>,
        accts = accounts st, payouts = []\<rparr> = Inr s"
    by simp
  have "commonBudgetDole cfg rows st = Inl InflationOverflowedDestinationBalance"
    using a forEach_Inl[OF loop step, of ws2] by (simp add: commonBudgetDole_def Let_def)
  then show "commonBudgetInflationOpFrame cfg rows st = Inl InflationOverflowedDestinationBalance"
    using a by (simp add: commonBudgetInflationOpFrame_def)
next
  assume "\<not> notTime (header st) \<and> commonBudgetDole cfg rows st = Inr s \<and>
    loadAccount (accts s) (COMMON_BUDGET_ACCOUNT_ID cfg) = Some commonBudget \<and>
    addBalance commonBudget (leftAfterDole s) = None"
  then show "commonBudgetInflationOpFrame cfg rows st = Inl InflationOverflowedCommonBudgetBalance"
    by (simp add: commonBudgetInflationOpFrame_def commonBudgetFinish_def Let_def)
qed

theorem credit_overflow_is_fatal_witness:
  "addBalance 9223372036854775807 114433200000 = None
   \<and> origInflationOpFrame exampleRows fullLedger = Inl InflationOverflowedDestinationBalance
   \<and> addBalance 9223372036854775807 420000 = None
   \<and> commonBudgetInflationOpFrame plainConfig exampleRows fullLedger
       = Inl InflationOverflowedDestinationBalance
   \<and> addBalance 9223372036854775807 1000000 = None
   \<and> commonBudgetInflationOpFrame plainConfig [] fullLedger
       = Inl InflationOverflowedCommonBudgetBalance"
proof -
  note claim = credit_overflow_is_fatal
  have over: "addBalance 9223372036854775807 114433200000 = None"
    "addBalance 9223372036854775807 420000 = None"
    "addBalance 9223372036854775807 1000000 = None"
    by (simp_all add: addBalance_def INT64_MAX_def INT64_MIN_def)
  have legacy: "origInflationOpFrame exampleRows fullLedger = Inl InflationOverflowedDestinationBalance"
    by (rule claim[where minBalance = 500000000000 and inflationAmount = 190721000000
            and ?ws1.0 = "[]"
            and w = "\<lparr>mVotes = 600000000000000, mInflationDest = ''alice''\<rparr>"
            and ?ws2.0 = "[\<lparr>mVotes = 300000000000000, mInflationDest = ''ghost''\<rparr>]"
            and s = "\<lparr>leftAfterDole = 190722000000,
                     lcl = exampleHeader\<lparr>feePool := 0, inflationSeq := 1\<rparr>,
                     accts = fullAccounts, payouts = []\<rparr>"
            and p = 114433200000 and winner = 9223372036854775807,
          THEN conjunct1, THEN mp])
       (simp add: example_defs inflation_defs)
  have winner: "commonBudgetInflationOpFrame plainConfig exampleRows fullLedger
       = Inl InflationOverflowedDestinationBalance"
    by (rule claim[where ?ws1.0 = "[]"
            and w = "\<lparr>mVotes = 600000000000000, mInflationDest = ''alice''\<rparr>"
            and ?ws2.0 = "[\<lparr>mVotes = 300000000000000, mInflationDest = ''ghost''\<rparr>]"
            and s = "\<lparr>leftAfterDole = 1000000, lcl = exampleHeader\<lparr>feePool := 0\<rparr>,
                     accts = fullAccounts, payouts = []\<rparr>"
            and p = 420000 and winner = 9223372036854775807,
          THEN conjunct2, THEN conjunct1, THEN mp])
       (simp add: example_defs inflation_defs)
  have sink: "commonBudgetInflationOpFrame plainConfig [] fullLedger
       = Inl InflationOverflowedCommonBudgetBalance"
    by (rule claim[where s = "\<lparr>leftAfterDole = 1000000, lcl = exampleHeader\<lparr>feePool := 0\<rparr>,
                     accts = fullAccounts, payouts = []\<rparr>"
            and commonBudget = 9223372036854775807,
          THEN conjunct2, THEN conjunct2, THEN mp])
       (simp add: example_defs inflation_defs)
  show ?thesis using over legacy winner sink by blast
qed

text \<open>
  Claim C7.  The common budget scheme never changes \<open>totalCoins\<close>.  After a successful
  run the header differs from the old one by the reset of the fee pool and the
  increment of \<open>inflationSeq\<close> only.  If the common budget account exists after the loop
  over the winners, its balance grows by exactly the fee pool before the reset minus the
  sum of the payouts of the winners; if it does not, the accounts are those the loop
  left, the result holds the payouts of the winners only, and the run still succeeds.
\<close>

theorem commonBudget_totalCoins_and_sink:
  "commonBudgetInflationOpFrame cfg rows st = Inr (r, st') \<longrightarrow>
     totalCoins (header st') = totalCoins (header st) \<and>
     (r \<noteq> INFLATION_NOT_TIME \<longrightarrow>
        (\<exists>s. commonBudgetDole cfg rows st = Inr s \<and>
           leftAfterDole s = feePool (header st) - sumAmounts (payouts s) \<and>
           header st' = (header st)\<lparr>feePool := 0, inflationSeq := inflationSeq (header st) + 1\<rparr> \<and>
           (case loadAccount (accts s) (COMMON_BUDGET_ACCOUNT_ID cfg) of
              Some commonBudget \<Rightarrow>
                accounts st' = (accts s)(COMMON_BUDGET_ACCOUNT_ID cfg \<mapsto>
                                  commonBudget + (feePool (header st) - sumAmounts (payouts s)))
            | None \<Rightarrow> accounts st' = accts s \<and> r = INFLATION_SUCCESS (payouts s))))"
proof
  assume "commonBudgetInflationOpFrame cfg rows st = Inr (r, st')"
  then show "totalCoins (header st') = totalCoins (header st) \<and>
     (r \<noteq> INFLATION_NOT_TIME \<longrightarrow>
        (\<exists>s. commonBudgetDole cfg rows st = Inr s \<and>
           leftAfterDole s = feePool (header st) - sumAmounts (payouts s) \<and>
           header st' = (header st)\<lparr>feePool := 0, inflationSeq := inflationSeq (header st) + 1\<rparr> \<and>
           (case loadAccount (accts s) (COMMON_BUDGET_ACCOUNT_ID cfg) of
              Some commonBudget \<Rightarrow>
                accounts st' = (accts s)(COMMON_BUDGET_ACCOUNT_ID cfg \<mapsto>
                                  commonBudget + (feePool (header st) - sumAmounts (payouts s)))
            | None \<Rightarrow> accounts st' = accts s \<and> r = INFLATION_SUCCESS (payouts s))))"
  proof (cases rule: commonBudgetInflationOpFrame_cases)
    case not_time
    then show ?thesis by simp
  next
    case (success s)
    have h: "lcl s = (header st)\<lparr>feePool := 0\<rparr>"
      using commonBudgetDole_state(1)[OF success(2)] .
    have left: "leftAfterDole s = feePool (header st) - sumAmounts (payouts s)"
      using commonBudgetDole_sum[OF success(2)] .
    from success(3) show ?thesis
    proof (cases rule: commonBudgetFinish_cases)
      case unresolved
      then show ?thesis using success(2) h left by simp
    next
      case (resolved commonBudget b)
      have "b = commonBudget + (feePool (header st) - sumAmounts (payouts s))"
        using addBalance_Some[OF resolved(2)] left by simp
      then show ?thesis using resolved success(2) h left by simp
    qed
  qed
qed

theorem commonBudget_totalCoins_and_sink_witness:
  "commonBudgetInflationOpFrame exampleConfig exampleRows exampleLedger =
     Inr (INFLATION_SUCCESS [\<lparr>destination = ''alice'', amount = 420000\<rparr>,
                             \<lparr>destination = ''budget'', amount = 580000\<rparr>],
          \<lparr>header = \<lparr>ledgerVersion = 8, closeTime = 1404172800, totalCoins = 1000000000000000,
                     feePool = 0, inflationSeq = 1\<rparr>,
           accounts = exampleAccounts(''alice'' \<mapsto> 420005, ''budget'' \<mapsto> 580007)\<rparr>)
   \<and> totalCoins exampleHeader = 1000000000000000
   \<and> exampleAccounts(''alice'' \<mapsto> 420005, ''budget'' \<mapsto> 580007)
       = exampleAccounts(''alice'' \<mapsto> 420005,
           ''budget'' \<mapsto> 7 + (feePool exampleHeader
                               - sumAmounts [\<lparr>destination = ''alice'', amount = 420000\<rparr>]))
   \<and> commonBudgetInflationOpFrame exampleConfigNoBudget exampleRows exampleLedger =
     Inr (INFLATION_SUCCESS [\<lparr>destination = ''alice'', amount = 420000\<rparr>],
          \<lparr>header = \<lparr>ledgerVersion = 8, closeTime = 1404172800, totalCoins = 1000000000000000,
                     feePool = 0, inflationSeq = 1\<rparr>,
           accounts = exampleAccounts(''alice'' \<mapsto> 420005)\<rparr>)
   \<and> (580000 :: 64 word)
       = feePool exampleHeader - sumAmounts [\<lparr>destination = ''alice'', amount = 420000\<rparr>]"
proof -
  note claim = commonBudget_totalCoins_and_sink
  have tc: "totalCoins exampleHeader = 1000000000000000"
    using claim[THEN mp, OF example_commonBudget_run] by (simp add: exampleLedger_def)
  have resolved: "exampleAccounts(''alice'' \<mapsto> 420005, ''budget'' \<mapsto> 580007)
       = exampleAccounts(''alice'' \<mapsto> 420005,
           ''budget'' \<mapsto> 7 + (feePool exampleHeader
                               - sumAmounts [\<lparr>destination = ''alice'', amount = 420000\<rparr>]))"
  proof -
    from claim[THEN mp, OF example_commonBudget_run]
    obtain s where s: "commonBudgetDole exampleConfig exampleRows exampleLedger = Inr s"
      and c: "case loadAccount (accts s) (COMMON_BUDGET_ACCOUNT_ID exampleConfig) of
              Some commonBudget \<Rightarrow>
                accounts \<lparr>header = \<lparr>ledgerVersion = 8, closeTime = 1404172800,
                     totalCoins = 1000000000000000, feePool = 0, inflationSeq = 1\<rparr>,
                   accounts = exampleAccounts(''alice'' \<mapsto> 420005, ''budget'' \<mapsto> 580007)\<rparr>
                  = (accts s)(COMMON_BUDGET_ACCOUNT_ID exampleConfig \<mapsto>
                       commonBudget + (feePool (header exampleLedger) - sumAmounts (payouts s)))
            | None \<Rightarrow>
                accounts \<lparr>header = \<lparr>ledgerVersion = 8, closeTime = 1404172800,
                     totalCoins = 1000000000000000, feePool = 0, inflationSeq = 1\<rparr>,
                   accounts = exampleAccounts(''alice'' \<mapsto> 420005, ''budget'' \<mapsto> 580007)\<rparr>
                  = accts s
                \<and> INFLATION_SUCCESS [\<lparr>destination = ''alice'', amount = 420000\<rparr>,
                                       \<lparr>destination = ''budget'', amount = 580000\<rparr>]
                    = INFLATION_SUCCESS (payouts s)"
      by auto
    have "s = exampleDoleState" using s by (rule example_commonBudget_dole_eq)
    then show ?thesis
      using c by (simp add: exampleDoleState_def exampleLedger_def exampleConfig_def
          loadAccount_def exampleAccounts_def)
  qed
  have unresolved: "(580000 :: 64 word)
       = feePool exampleHeader - sumAmounts [\<lparr>destination = ''alice'', amount = 420000\<rparr>]"
  proof -
    from claim[THEN mp, OF example_noBudget_run]
    obtain s where s: "commonBudgetDole exampleConfigNoBudget exampleRows exampleLedger = Inr s"
      and c: "leftAfterDole s = feePool (header exampleLedger) - sumAmounts (payouts s)"
      by auto
    have "s = exampleDoleState" using s by (rule example_noBudget_dole_eq)
    then show ?thesis
      using c by (simp add: exampleDoleState_def exampleLedger_def)
  qed
  show ?thesis
    using tc resolved unresolved example_commonBudget_run example_noBudget_run by blast
qed

text \<open>
  Claim C10.  In the common budget scheme, when the common budget account exists, the
  payouts of the result are the payouts of the winners followed by one more entry: the
  common budget account with the fee pool before the reset minus the sum of the payouts
  of the winners.  When it does not exist the result holds the payouts of the winners
  only.
\<close>

theorem commonBudget_sink_is_last_payout:
  "commonBudgetInflationOpFrame cfg rows st = Inr (INFLATION_SUCCESS ps, st') \<longrightarrow>
     (\<exists>s. commonBudgetDole cfg rows st = Inr s \<and>
        (if loadAccount (accts s) (COMMON_BUDGET_ACCOUNT_ID cfg) = None then ps = payouts s
         else ps = payouts s @
                [\<lparr>destination = COMMON_BUDGET_ACCOUNT_ID cfg,
                  amount = feePool (header st) - sumAmounts (payouts s)\<rparr>]
              \<and> last ps = \<lparr>destination = COMMON_BUDGET_ACCOUNT_ID cfg,
                            amount = feePool (header st) - sumAmounts (payouts s)\<rparr>))"
proof
  assume "commonBudgetInflationOpFrame cfg rows st = Inr (INFLATION_SUCCESS ps, st')"
  then show "\<exists>s. commonBudgetDole cfg rows st = Inr s \<and>
        (if loadAccount (accts s) (COMMON_BUDGET_ACCOUNT_ID cfg) = None then ps = payouts s
         else ps = payouts s @
                [\<lparr>destination = COMMON_BUDGET_ACCOUNT_ID cfg,
                  amount = feePool (header st) - sumAmounts (payouts s)\<rparr>]
              \<and> last ps = \<lparr>destination = COMMON_BUDGET_ACCOUNT_ID cfg,
                            amount = feePool (header st) - sumAmounts (payouts s)\<rparr>)"
  proof (cases rule: commonBudgetInflationOpFrame_cases)
    case not_time
    then show ?thesis by simp
  next
    case (success s)
    have left: "leftAfterDole s = feePool (header st) - sumAmounts (payouts s)"
      using commonBudgetDole_sum[OF success(2)] .
    from success(3) show ?thesis
    proof (cases rule: commonBudgetFinish_cases)
      case unresolved
      then show ?thesis using success(2) by simp
    next
      case (resolved commonBudget b)
      then show ?thesis using success(2) left by simp
    qed
  qed
qed

theorem commonBudget_sink_is_last_payout_witness:
  "commonBudgetInflationOpFrame exampleConfig exampleRows exampleLedger =
     Inr (INFLATION_SUCCESS [\<lparr>destination = ''alice'', amount = 420000\<rparr>,
                             \<lparr>destination = ''budget'', amount = 580000\<rparr>],
          \<lparr>header = \<lparr>ledgerVersion = 8, closeTime = 1404172800, totalCoins = 1000000000000000,
                     feePool = 0, inflationSeq = 1\<rparr>,
           accounts = exampleAccounts(''alice'' \<mapsto> 420005, ''budget'' \<mapsto> 580007)\<rparr>)
   \<and> last [\<lparr>destination = ''alice'', amount = 420000\<rparr>,
            \<lparr>destination = ''budget'', amount = 580000\<rparr>]
       = \<lparr>destination = COMMON_BUDGET_ACCOUNT_ID exampleConfig,
          amount = feePool exampleHeader
                   - sumAmounts [\<lparr>destination = ''alice'', amount = 420000\<rparr>]\<rparr>"
proof -
  from commonBudget_sink_is_last_payout[THEN mp, OF example_commonBudget_run]
  obtain s where s: "commonBudgetDole exampleConfig exampleRows exampleLedger = Inr s"
    and c: "if loadAccount (accts s) (COMMON_BUDGET_ACCOUNT_ID exampleConfig) = None
         then [\<lparr>destination = ''alice'', amount = 420000\<rparr>,
               \<lparr>destination = ''budget'', amount = 580000\<rparr>] = payouts s
         else [\<lparr>destination = ''alice'', amount = 420000\<rparr>,
               \<lparr>destination = ''budget'', amount = 580000\<rparr>]
              = payouts s @
                [\<lparr>destination = COMMON_BUDGET_ACCOUNT_ID exampleConfig,
                  amount = feePool (header exampleLedger) - sumAmounts (payouts s)\<rparr>]
              \<and> last [\<lparr>destination = ''alice'', amount = 420000\<rparr>,
                        \<lparr>destination = ''budget'', amount = 580000\<rparr>]
                  = \<lparr>destination = COMMON_BUDGET_ACCOUNT_ID exampleConfig,
                     amount = feePool (header exampleLedger) - sumAmounts (payouts s)\<rparr>"
    by auto
  have "s = exampleDoleState" using s by (rule example_commonBudget_dole_eq)
  then have "last [\<lparr>destination = ''alice'', amount = 420000\<rparr>,
            \<lparr>destination = ''budget'', amount = 580000\<rparr>]
       = \<lparr>destination = COMMON_BUDGET_ACCOUNT_ID exampleConfig,
          amount = feePool exampleHeader
                   - sumAmounts [\<lparr>destination = ''alice'', amount = 420000\<rparr>]\<rparr>"
    using c by (simp add: exampleDoleState_def exampleLedger_def exampleConfig_def
          loadAccount_def exampleAccounts_def split: if_splits)
  then show ?thesis using example_commonBudget_run by blast
qed

lemma origDoleWinner_payout:
  assumes "origDoleWinner a v w s = Inr s'"
  shows "payouts s' = payouts s \<or>
     (\<exists>x. (destination x = mInflationDest w \<and> amount x \<noteq> 0 \<and> 0 \<le> sint (amount x) \<and>
            sint (amount x) = (sint a * sint (mVotes w)) div sint v)
          \<and> payouts s' = payouts s @ [x])"
  using assms
proof (cases rule: origDoleWinner_cases)
  case skip
  then show ?thesis by simp
next
  case (paid p winner b)
  then show ?thesis using bigDivide_Inr(4,5)[OF paid(1)] by simp
qed

lemma commonBudgetDoleWinner_payout:
  assumes "commonBudgetDoleWinner a v w s = Inr s'"
  shows "payouts s' = payouts s \<or>
     (\<exists>x. (destination x = mInflationDest w \<and> amount x \<noteq> 0 \<and> 0 \<le> sint (amount x) \<and>
            sint (amount x) = (sint a * sint (mVotes w)) div sint v)
          \<and> payouts s' = payouts s @ [x])"
  using assms
proof (cases rule: commonBudgetDoleWinner_cases)
  case skip
  then show ?thesis by simp
next
  case (paid p winner b)
  then show ?thesis using bigDivide_Inr(4,5)[OF paid(1)] by simp
qed

lemma origDole_payouts:
  assumes "forEach (origDoleWinner a v) ws s = Inr s'" "payouts s = []"
  shows "\<forall>x\<in>set (payouts s'). \<exists>w\<in>set ws.
     destination x = mInflationDest w \<and> amount x \<noteq> 0 \<and> 0 \<le> sint (amount x) \<and>
     sint (amount x) = (sint a * sint (mVotes w)) div sint v"
  using forEach_payouts[where body = "origDoleWinner a v" and ws = ws and s = s and s' = s'
      and Q = "\<lambda>w x. destination x = mInflationDest w \<and> amount x \<noteq> 0 \<and> 0 \<le> sint (amount x) \<and>
                     sint (amount x) = (sint a * sint (mVotes w)) div sint v",
      OF origDoleWinner_payout assms(1)] assms(2)
  by auto

lemma commonBudgetDole_payouts:
  assumes "forEach (commonBudgetDoleWinner a v) ws s = Inr s'" "payouts s = []"
  shows "\<forall>x\<in>set (payouts s'). \<exists>w\<in>set ws.
     destination x = mInflationDest w \<and> amount x \<noteq> 0 \<and> 0 \<le> sint (amount x) \<and>
     sint (amount x) = (sint a * sint (mVotes w)) div sint v"
  using forEach_payouts[where body = "commonBudgetDoleWinner a v" and ws = ws and s = s and s' = s'
      and Q = "\<lambda>w x. destination x = mInflationDest w \<and> amount x \<noteq> 0 \<and> 0 \<le> sint (amount x) \<and>
                     sint (amount x) = (sint a * sint (mVotes w)) div sint v",
      OF commonBudgetDoleWinner_payout assms(1)] assms(2)
  by auto

text \<open>
  Claim C5.  For every winner the loop handles, in both schemes, the payout is what
  \<open>bigDivide amountToDole votes totalVotes\<close> returns: the integer quotient
  \<open>amountToDole * votes div totalVotes\<close>, rounded down, with the product taken over the
  integers, and not negative.  A winner whose payout is 0 leaves the whole state of the
  loop (remainder, header, accounts, payouts) as it was.  Hence every payout of a
  successful legacy run, and every payout the loop of the common budget run records, has
  a nonzero, non-negative amount that is this quotient for a row of the tally with the
  same destination.
\<close>

theorem payout_is_floor_and_zero_is_skipped:
  "(origDoleWinner amountToDole totalVotes w s = Inr s' \<or>
    commonBudgetDoleWinner amountToDole totalVotes w s = Inr s' \<longrightarrow>
      (\<exists>p. bigDivide amountToDole (mVotes w) totalVotes = Inr p \<and>
           sint p = (sint amountToDole * sint (mVotes w)) div sint totalVotes \<and>
           0 \<le> sint p \<and> (p = 0 \<longrightarrow> s' = s)))
   \<and> (bigDivide amountToDole (mVotes w) totalVotes = Inr 0 \<longrightarrow>
        origDoleWinner amountToDole totalVotes w s = Inr s \<and>
        commonBudgetDoleWinner amountToDole totalVotes w s = Inr s)
   \<and> (origInflationOpFrame rows st = Inr (INFLATION_SUCCESS ps, st') \<longrightarrow>
        (\<exists>inflationAmount. origInflationAmount (header st) = Inr inflationAmount \<and>
           (\<forall>x\<in>set ps. \<exists>w\<in>set rows.
              destination x = mInflationDest w \<and> amount x \<noteq> 0 \<and> 0 \<le> sint (amount x) \<and>
              sint (amount x) =
                (sint (inflationAmount + feePool (header st)) * sint (mVotes w))
                  div sint (totalCoins (header st)))))
   \<and> (commonBudgetDole cfg rows st = Inr sd \<longrightarrow>
        (\<forall>x\<in>set (payouts sd). \<exists>w\<in>set rows.
           destination x = mInflationDest w \<and> amount x \<noteq> 0 \<and> 0 \<le> sint (amount x) \<and>
           sint (amount x) =
             (sint (commonBudgetAmountToDole (header st)) * sint (mVotes w))
               div sint (commonBudgetTotalVotes cfg st)))"
proof (intro conjI impI)
  assume "origDoleWinner amountToDole totalVotes w s = Inr s' \<or>
    commonBudgetDoleWinner amountToDole totalVotes w s = Inr s'"
  then obtain p where p: "bigDivide amountToDole (mVotes w) totalVotes = Inr p" "p = 0 \<longrightarrow> s' = s"
    using origDoleWinner_computes commonBudgetDoleWinner_computes by blast
  then show "\<exists>p. bigDivide amountToDole (mVotes w) totalVotes = Inr p \<and>
           sint p = (sint amountToDole * sint (mVotes w)) div sint totalVotes \<and>
           0 \<le> sint p \<and> (p = 0 \<longrightarrow> s' = s)"
    using bigDivide_Inr(4,5)[OF p(1)] by blast
next
  assume "bigDivide amountToDole (mVotes w) totalVotes = Inr 0"
  then show "origDoleWinner amountToDole totalVotes w s = Inr s"
    and "commonBudgetDoleWinner amountToDole totalVotes w s = Inr s"
    by (simp_all add: origDoleWinner_def commonBudgetDoleWinner_def)
next
  assume "origInflationOpFrame rows st = Inr (INFLATION_SUCCESS ps, st')"
  then show "\<exists>inflationAmount. origInflationAmount (header st) = Inr inflationAmount \<and>
           (\<forall>x\<in>set ps. \<exists>w\<in>set rows.
              destination x = mInflationDest w \<and> amount x \<noteq> 0 \<and> 0 \<le> sint (amount x) \<and>
              sint (amount x) =
                (sint (inflationAmount + feePool (header st)) * sint (mVotes w))
                  div sint (totalCoins (header st)))"
  proof (cases rule: origInflationOpFrame_cases)
    case not_time
    then show ?thesis by simp
  next
    case (success minBalance inflationAmount s)
    have "\<forall>x\<in>set (payouts s). \<exists>w\<in>set (origWinners minBalance rows).
        destination x = mInflationDest w \<and> amount x \<noteq> 0 \<and> 0 \<le> sint (amount x) \<and>
        sint (amount x) =
          (sint (inflationAmount + feePool (header st)) * sint (mVotes w))
            div sint (origTotalVotes (header st))"
      by (rule origDole_payouts[OF success(4)]) simp
    moreover have "set (origWinners minBalance rows) \<subseteq> set rows"
      unfolding origWinners_def by (rule set_processForInflation)
    ultimately have "\<forall>x\<in>set (payouts s). \<exists>w\<in>set rows.
        destination x = mInflationDest w \<and> amount x \<noteq> 0 \<and> 0 \<le> sint (amount x) \<and>
        sint (amount x) =
          (sint (inflationAmount + feePool (header st)) * sint (mVotes w))
            div sint (totalCoins (header st))"
      unfolding origTotalVotes_def by blast
    then show ?thesis using success(3,5) by simp
  qed
next
  assume run: "commonBudgetDole cfg rows st = Inr sd"
  then have loop: "forEach (commonBudgetDoleWinner (commonBudgetAmountToDole (header st))
               (commonBudgetTotalVotes cfg st)) (commonBudgetWinners cfg rows)
       \<lparr>leftAfterDole = feePool (header st), lcl = (header st)\<lparr>feePool := 0\<rparr>,
        accts = accounts st, payouts = []\<rparr> = Inr sd"
    by (simp add: commonBudgetDole_def Let_def)
  have "\<forall>x\<in>set (payouts sd). \<exists>w\<in>set (commonBudgetWinners cfg rows).
        destination x = mInflationDest w \<and> amount x \<noteq> 0 \<and> 0 \<le> sint (amount x) \<and>
        sint (amount x) =
          (sint (commonBudgetAmountToDole (header st)) * sint (mVotes w))
            div sint (commonBudgetTotalVotes cfg st)"
    by (rule commonBudgetDole_payouts[OF loop]) simp
  moreover have "set (commonBudgetWinners cfg rows) \<subseteq> set rows"
    unfolding commonBudgetWinners_def by (rule set_processForInflation)
  ultimately show "\<forall>x\<in>set (payouts sd). \<exists>w\<in>set rows.
           destination x = mInflationDest w \<and> amount x \<noteq> 0 \<and> 0 \<le> sint (amount x) \<and>
           sint (amount x) =
             (sint (commonBudgetAmountToDole (header st)) * sint (mVotes w))
               div sint (commonBudgetTotalVotes cfg st)"
    by blast
qed

theorem payout_is_floor_and_zero_is_skipped_witness:
  "bigDivide 1999 (mVotes \<lparr>mVotes = 500, mInflationDest = ''alice''\<rparr>) 1000000 = Inr 0
   \<and> origDoleWinner 1999 1000000 \<lparr>mVotes = 500, mInflationDest = ''alice''\<rparr> exampleDoleState
       = Inr exampleDoleState
   \<and> commonBudgetDoleWinner 1999 1000000 \<lparr>mVotes = 500, mInflationDest = ''alice''\<rparr> exampleDoleState
       = Inr exampleDoleState
   \<and> (\<exists>p. bigDivide 1999 (mVotes \<lparr>mVotes = 500, mInflationDest = ''alice''\<rparr>) 1000000 = Inr p \<and>
           sint p = (sint (1999 :: 64 word) * 500) div 1000000 \<and> 0 \<le> sint p)
   \<and> origInflationOpFrame exampleRows exampleLedger =
     Inr (INFLATION_SUCCESS [\<lparr>destination = ''alice'', amount = 114433200000\<rparr>],
          \<lparr>header = \<lparr>ledgerVersion = 8, closeTime = 1404172800, totalCoins = 1000190721000000,
                     feePool = 76288800000, inflationSeq = 1\<rparr>,
           accounts = exampleAccounts(''alice'' \<mapsto> 114433200005)\<rparr>)
   \<and> (\<exists>inflationAmount. origInflationAmount exampleHeader = Inr inflationAmount \<and>
        (\<exists>w\<in>set exampleRows. mInflationDest w = ''alice'' \<and>
           sint (114433200000 :: 64 word)
             = (sint (inflationAmount + 1000000) * sint (mVotes w)) div 1000000000000000))
   \<and> commonBudgetDole exampleConfig exampleRows exampleLedger = Inr exampleDoleState
   \<and> (\<exists>w\<in>set exampleRows. mInflationDest w = ''alice'' \<and>
        sint (420000 :: 64 word)
          = (sint (commonBudgetAmountToDole exampleHeader) * sint (mVotes w))
              div sint (commonBudgetTotalVotes exampleConfig exampleLedger))"
proof -
  note claim = payout_is_floor_and_zero_is_skipped
  let ?w = "\<lparr>mVotes = 500, mInflationDest = ''alice''\<rparr>"
  have zero: "bigDivide 1999 (mVotes ?w) 1000000 = Inr 0"
    by (simp add: bigDivide_def INT64_MAX_def)
  have skip: "origDoleWinner 1999 1000000 ?w exampleDoleState = Inr exampleDoleState"
    "commonBudgetDoleWinner 1999 1000000 ?w exampleDoleState = Inr exampleDoleState"
    using claim[where amountToDole = 1999 and totalVotes = 1000000 and w = ?w
        and s = exampleDoleState, THEN conjunct2, THEN conjunct1, THEN mp, OF zero]
    by blast+
  have floor: "\<exists>p. bigDivide 1999 (mVotes ?w) 1000000 = Inr p \<and>
           sint p = (sint (1999 :: 64 word) * 500) div 1000000 \<and> 0 \<le> sint p"
    using claim[where amountToDole = 1999 and totalVotes = 1000000 and w = ?w
        and s = exampleDoleState and s' = exampleDoleState, THEN conjunct1] skip(1)
    by simp
  have legacy: "\<exists>inflationAmount. origInflationAmount exampleHeader = Inr inflationAmount \<and>
        (\<exists>w\<in>set exampleRows. mInflationDest w = ''alice'' \<and>
           sint (114433200000 :: 64 word)
             = (sint (inflationAmount + 1000000) * sint (mVotes w)) div 1000000000000000)"
    using claim[THEN conjunct2, THEN conjunct2, THEN conjunct1, THEN mp, OF example_orig_run]
    by (auto simp: exampleLedger_def exampleHeader_def)
  have dole: "commonBudgetDole exampleConfig exampleRows exampleLedger = Inr exampleDoleState"
    by (simp add: example_commonBudget_dole exampleDoleState_def)
  have budget: "\<exists>w\<in>set exampleRows. mInflationDest w = ''alice'' \<and>
        sint (420000 :: 64 word)
          = (sint (commonBudgetAmountToDole exampleHeader) * sint (mVotes w))
              div sint (commonBudgetTotalVotes exampleConfig exampleLedger)"
    using claim[THEN conjunct2, THEN conjunct2, THEN conjunct2, THEN mp, OF dole]
    by (auto simp: exampleDoleState_def exampleLedger_def)
  show ?thesis using zero skip floor legacy example_orig_run dole budget by blast
qed

text \<open>
  Claim C6 as stated (a run whose \<open>totalVotes\<close> is not positive is rejected before any
  mutation) does not hold.  On a ledger without coins (legacy scheme) and on a ledger
  whose coins outside the fee pool all belong to excluded accounts (common budget
  scheme), both with an empty tally,
  \<open>totalVotes\<close> is not positive and the run returns \<open>INFLATION_SUCCESS\<close>, with
  \<open>inflationSeq\<close> incremented and, in the common budget scheme, the fee pool paid to the
  common budget account.
\<close>

theorem nonpositive_totalVotes_counterexample:
  "\<not> notTime (header noCoinsLedger)
   \<and> sint (origTotalVotes (header noCoinsLedger)) \<le> 0
   \<and> origInflationOpFrame [] noCoinsLedger =
     Inr (INFLATION_SUCCESS [],
          \<lparr>header = \<lparr>ledgerVersion = 8, closeTime = 1404172800, totalCoins = 0,
                     feePool = 0, inflationSeq = 1\<rparr>,
           accounts = [''alice'' \<mapsto> 0, ''budget'' \<mapsto> 0]\<rparr>)
   \<and> \<not> notTime (header excludedHoldAllLedger)
   \<and> sint (commonBudgetTotalVotes excludeAllConfig excludedHoldAllLedger) \<le> 0
   \<and> commonBudgetInflationOpFrame excludeAllConfig [] excludedHoldAllLedger =
     Inr (INFLATION_SUCCESS [\<lparr>destination = ''budget'', amount = 1000000\<rparr>],
          \<lparr>header = \<lparr>ledgerVersion = 8, closeTime = 1404172800, totalCoins = 1000012,
                     feePool = 0, inflationSeq = 1\<rparr>,
           accounts = exampleAccounts(''budget'' \<mapsto> 1000007)\<rparr>)"
proof -
  have "\<not> notTime (header noCoinsLedger)" "\<not> notTime (header excludedHoldAllLedger)"
    "sint (origTotalVotes (header noCoinsLedger)) \<le> 0"
    by (simp_all add: example_defs inflation_defs)
  then show ?thesis
    using example_noCoins_run(1) example_excludedHoldAll_run(1,2) by simp
qed

text \<open>
  Claim C6, as amended.  Neither scheme checks \<open>totalVotes\<close> before it starts: a run
  whose \<open>totalVotes\<close> is not positive fails only where \<open>bigDivide\<close> is called with it,
  with the precondition failure of \<open>bigDivide\<close> (not a result, and not
  \<open>INFLATION_NOT_TIME\<close>).  In the legacy scheme that is at once when \<open>totalVotes\<close> is
  negative (it is the first argument of the \<open>bigDivide\<close> for \<open>minBalance\<close>), and at the
  first winner when it is 0; in the common budget scheme at the first winner.  A run
  without winners does not fail on \<open>totalVotes\<close>.  In the legacy scheme with
  \<open>totalVotes = 0\<close> it returns \<open>INFLATION_SUCCESS\<close> and only \<open>inflationSeq\<close> changes.
  In the common budget scheme it returns \<open>INFLATION_SUCCESS\<close>, without a payout when
  the common budget account does not exist and with the whole fee pool paid to it when
  it does, unless that credit overflows the balance of the account: then the run ends
  with \<open>InflationOverflowedCommonBudgetBalance\<close>.
\<close>

theorem nonpositive_totalVotes_fails_only_in_bigDivide:
  "(\<not> notTime (header st) \<and> sint (origTotalVotes (header st)) < 0 \<longrightarrow>
      origInflationOpFrame rows st = Inl BigDividePrecondition)
   \<and> (\<not> notTime (header st) \<and> origTotalVotes (header st) = 0 \<and> origWinners 0 rows \<noteq> [] \<longrightarrow>
      origInflationOpFrame rows st = Inl BigDividePrecondition)
   \<and> (\<not> notTime (header st) \<and> origTotalVotes (header st) = 0 \<and> origWinners 0 rows = [] \<longrightarrow>
      origInflationOpFrame rows st =
        Inr (INFLATION_SUCCESS [],
             st\<lparr>header := (header st)\<lparr>inflationSeq := inflationSeq (header st) + 1\<rparr>\<rparr>))
   \<and> (\<not> notTime (header st) \<and> sint (commonBudgetTotalVotes cfg st) \<le> 0 \<and>
       commonBudgetWinners cfg rows \<noteq> [] \<longrightarrow>
      commonBudgetInflationOpFrame cfg rows st = Inl BigDividePrecondition)
   \<and> (\<not> notTime (header st) \<and> commonBudgetWinners cfg rows = [] \<and>
       loadAccount (accounts st) (COMMON_BUDGET_ACCOUNT_ID cfg) = None \<longrightarrow>
      commonBudgetInflationOpFrame cfg rows st =
        Inr (INFLATION_SUCCESS [],
             st\<lparr>header := (header st)\<lparr>feePool := 0, inflationSeq := inflationSeq (header st) + 1\<rparr>\<rparr>))
   \<and> (\<not> notTime (header st) \<and> commonBudgetWinners cfg rows = [] \<and>
       loadAccount (accounts st) (COMMON_BUDGET_ACCOUNT_ID cfg) = Some commonBudget \<and>
       addBalance commonBudget (feePool (header st)) = Some b \<longrightarrow>
      commonBudgetInflationOpFrame cfg rows st =
        Inr (INFLATION_SUCCESS
               [\<lparr>destination = COMMON_BUDGET_ACCOUNT_ID cfg, amount = feePool (header st)\<rparr>],
             \<lparr>header = (header st)\<lparr>feePool := 0, inflationSeq := inflationSeq (header st) + 1\<rparr>,
              accounts = (accounts st)(COMMON_BUDGET_ACCOUNT_ID cfg \<mapsto> b)\<rparr>))
   \<and> (\<not> notTime (header st) \<and> commonBudgetWinners cfg rows = [] \<and>
       loadAccount (accounts st) (COMMON_BUDGET_ACCOUNT_ID cfg) = Some commonBudget \<and>
       addBalance commonBudget (feePool (header st)) = None \<longrightarrow>
      commonBudgetInflationOpFrame cfg rows st = Inl InflationOverflowedCommonBudgetBalance)"
proof (intro conjI impI)
  assume "\<not> notTime (header st) \<and> sint (origTotalVotes (header st)) < 0"
  then show "origInflationOpFrame rows st = Inl BigDividePrecondition"
    by (simp add: origInflationOpFrame_def origMinBalance_def bigDivide_precondition(2))
next
  assume a: "\<not> notTime (header st) \<and> origTotalVotes (header st) = 0 \<and> origWinners 0 rows \<noteq> []"
  then have z: "origMinBalance (header st) = Inr 0" "origInflationAmount (header st) = Inr 0"
    using orig_parameters_zero by blast+
  have "forEach (origDoleWinner (0 + feePool (header st)) (origTotalVotes (header st)))
       (origWinners 0 rows)
       \<lparr>leftAfterDole = 0 + feePool (header st),
        lcl = (header st)\<lparr>feePool := 0, inflationSeq := inflationSeq (header st) + 1\<rparr>,
        accts = accounts st, payouts = []\<rparr> = Inl BigDividePrecondition"
    using a by (intro forEach_first_Inl doleWinner_precondition(1)) simp_all
  then show "origInflationOpFrame rows st = Inl BigDividePrecondition"
    using a z origInflationOpFrame_Inl by blast
next
  assume a: "\<not> notTime (header st) \<and> origTotalVotes (header st) = 0 \<and> origWinners 0 rows = []"
  then have z: "origMinBalance (header st) = Inr 0" "origInflationAmount (header st) = Inr 0"
    using orig_parameters_zero by blast+
  show "origInflationOpFrame rows st =
        Inr (INFLATION_SUCCESS [],
             st\<lparr>header := (header st)\<lparr>inflationSeq := inflationSeq (header st) + 1\<rparr>\<rparr>)"
    using a z by (simp add: origInflationOpFrame_def Let_def)
next
  assume a: "\<not> notTime (header st) \<and> sint (commonBudgetTotalVotes cfg st) \<le> 0 \<and>
       commonBudgetWinners cfg rows \<noteq> []"
  have "commonBudgetDole cfg rows st = Inl BigDividePrecondition"
    unfolding commonBudgetDole_def Let_def
    using a by (intro forEach_first_Inl doleWinner_precondition(2)) simp_all
  then show "commonBudgetInflationOpFrame cfg rows st = Inl BigDividePrecondition"
    using a by (simp add: commonBudgetInflationOpFrame_def)
next
  assume a: "\<not> notTime (header st) \<and> commonBudgetWinners cfg rows = [] \<and>
       loadAccount (accounts st) (COMMON_BUDGET_ACCOUNT_ID cfg) = None"
  then show "commonBudgetInflationOpFrame cfg rows st =
        Inr (INFLATION_SUCCESS [],
             st\<lparr>header := (header st)\<lparr>feePool := 0, inflationSeq := inflationSeq (header st) + 1\<rparr>\<rparr>)"
    by (simp add: commonBudgetInflationOpFrame_def commonBudgetDole_def commonBudgetFinish_def Let_def)
next
  assume "\<not> notTime (header st) \<and> commonBudgetWinners cfg rows = [] \<and>
       loadAccount (accounts st) (COMMON_BUDGET_ACCOUNT_ID cfg) = Some commonBudget \<and>
       addBalance commonBudget (feePool (header st)) = Some b"
  then show "commonBudgetInflationOpFrame cfg rows st =
        Inr (INFLATION_SUCCESS
               [\<lparr>destination = COMMON_BUDGET_ACCOUNT_ID cfg, amount = feePool (header st)\<rparr>],
             \<lparr>header = (header st)\<lparr>feePool := 0, inflationSeq := inflationSeq (header st) + 1\<rparr>,
              accounts = (accounts st)(COMMON_BUDGET_ACCOUNT_ID cfg \<mapsto> b)\<rparr>)"
    by (simp add: commonBudgetInflationOpFrame_def commonBudgetDole_def commonBudgetFinish_def Let_def)
next
  assume "\<not> notTime (header st) \<and> commonBudgetWinners cfg rows = [] \<and>
       loadAccount (accounts st) (COMMON_BUDGET_ACCOUNT_ID cfg) = Some commonBudget \<and>
       addBalance commonBudget (feePool (header st)) = None"
  then show "commonBudgetInflationOpFrame cfg rows st = Inl InflationOverflowedCommonBudgetBalance"
    by (simp add: commonBudgetInflationOpFrame_def commonBudgetDole_def commonBudgetFinish_def Let_def)
qed

theorem nonpositive_totalVotes_fails_only_in_bigDivide_witness:
  "sint (origTotalVotes (header
       (exampleLedger\<lparr>header := exampleHeader\<lparr>totalCoins := 9223372036854775808\<rparr>\<rparr>))) < 0
   \<and> origInflationOpFrame exampleRows
         (exampleLedger\<lparr>header := exampleHeader\<lparr>totalCoins := 9223372036854775808\<rparr>\<rparr>)
       = Inl BigDividePrecondition
   \<and> origTotalVotes (header noCoinsLedger) = 0
   \<and> origWinners 0 zeroRows \<noteq> []
   \<and> origInflationOpFrame zeroRows noCoinsLedger = Inl BigDividePrecondition
   \<and> origWinners 0 [] = []
   \<and> origInflationOpFrame [] noCoinsLedger =
       Inr (INFLATION_SUCCESS [],
            noCoinsLedger\<lparr>header := (header noCoinsLedger)\<lparr>inflationSeq := 1\<rparr>\<rparr>)
   \<and> sint (commonBudgetTotalVotes excludeAllConfig excludedHoldAllLedger) \<le> 0
   \<and> commonBudgetWinners excludeAllConfig exampleRows \<noteq> []
   \<and> commonBudgetInflationOpFrame excludeAllConfig exampleRows excludedHoldAllLedger
       = Inl BigDividePrecondition
   \<and> loadAccount (accounts excludedHoldAllLedger) (COMMON_BUDGET_ACCOUNT_ID excludeAllConfigNoBudget) = None
   \<and> commonBudgetInflationOpFrame excludeAllConfigNoBudget [] excludedHoldAllLedger =
       Inr (INFLATION_SUCCESS [],
            excludedHoldAllLedger\<lparr>header := (header excludedHoldAllLedger)\<lparr>feePool := 0, inflationSeq := 1\<rparr>\<rparr>)
   \<and> loadAccount (accounts excludedHoldAllLedger) (COMMON_BUDGET_ACCOUNT_ID excludeAllConfig) = Some 7
   \<and> addBalance 7 (feePool (header excludedHoldAllLedger)) = Some 1000007
   \<and> commonBudgetInflationOpFrame excludeAllConfig [] excludedHoldAllLedger =
       Inr (INFLATION_SUCCESS [\<lparr>destination = ''budget'', amount = 1000000\<rparr>],
            \<lparr>header = \<lparr>ledgerVersion = 8, closeTime = 1404172800, totalCoins = 1000012,
                       feePool = 0, inflationSeq = 1\<rparr>,
             accounts = exampleAccounts(''budget'' \<mapsto> 1000007)\<rparr>)
   \<and> loadAccount (accounts fullLedger) (COMMON_BUDGET_ACCOUNT_ID plainConfig)
       = Some 9223372036854775807
   \<and> addBalance 9223372036854775807 (feePool (header fullLedger)) = None
   \<and> commonBudgetInflationOpFrame plainConfig [] fullLedger
       = Inl InflationOverflowedCommonBudgetBalance"
proof -
  note claim = nonpositive_totalVotes_fails_only_in_bigDivide
  let ?neg = "exampleLedger\<lparr>header := exampleHeader\<lparr>totalCoins := 9223372036854775808\<rparr>\<rparr>"
  have h1: "\<not> notTime (header ?neg) \<and> sint (origTotalVotes (header ?neg)) < 0"
    by (simp add: example_defs inflation_defs)
  have c1: "origInflationOpFrame exampleRows ?neg = Inl BigDividePrecondition"
    using claim[where st = ?neg and rows = exampleRows, THEN conjunct1, THEN mp, OF h1] .
  have h2: "\<not> notTime (header noCoinsLedger) \<and> origTotalVotes (header noCoinsLedger) = 0
      \<and> origWinners 0 zeroRows \<noteq> []"
    by (simp add: example_defs inflation_defs)
  have c2: "origInflationOpFrame zeroRows noCoinsLedger = Inl BigDividePrecondition"
    using claim[where st = noCoinsLedger and rows = zeroRows,
        THEN conjunct2, THEN conjunct1, THEN mp, OF h2] .
  have h3: "\<not> notTime (header noCoinsLedger) \<and> origTotalVotes (header noCoinsLedger) = 0
      \<and> origWinners 0 [] = []"
    by (simp add: example_defs inflation_defs)
  have c3: "origInflationOpFrame [] noCoinsLedger =
       Inr (INFLATION_SUCCESS [],
            noCoinsLedger\<lparr>header := (header noCoinsLedger)\<lparr>inflationSeq := 1\<rparr>\<rparr>)"
    using claim[where st = noCoinsLedger and rows = "[]",
        THEN conjunct2, THEN conjunct2, THEN conjunct1, THEN mp, OF h3]
    by (simp add: example_defs)
  have h4: "\<not> notTime (header excludedHoldAllLedger)
      \<and> sint (commonBudgetTotalVotes excludeAllConfig excludedHoldAllLedger) \<le> 0
      \<and> commonBudgetWinners excludeAllConfig exampleRows \<noteq> []"
    by (simp add: example_defs inflation_defs)
  have c4: "commonBudgetInflationOpFrame excludeAllConfig exampleRows excludedHoldAllLedger
       = Inl BigDividePrecondition"
    using claim[where st = excludedHoldAllLedger and rows = exampleRows and cfg = excludeAllConfig,
        THEN conjunct2, THEN conjunct2, THEN conjunct2, THEN conjunct1, THEN mp, OF h4] .
  have h5: "\<not> notTime (header excludedHoldAllLedger) \<and> commonBudgetWinners excludeAllConfigNoBudget [] = []
      \<and> loadAccount (accounts excludedHoldAllLedger) (COMMON_BUDGET_ACCOUNT_ID excludeAllConfigNoBudget) = None"
    by (simp add: example_defs inflation_defs)
  have c5: "commonBudgetInflationOpFrame excludeAllConfigNoBudget [] excludedHoldAllLedger =
       Inr (INFLATION_SUCCESS [],
            excludedHoldAllLedger\<lparr>header := (header excludedHoldAllLedger)\<lparr>feePool := 0, inflationSeq := 1\<rparr>\<rparr>)"
    using claim[where st = excludedHoldAllLedger and rows = "[]" and cfg = excludeAllConfigNoBudget,
        THEN conjunct2, THEN conjunct2, THEN conjunct2, THEN conjunct2, THEN conjunct1,
        THEN mp, OF h5]
    by (simp add: example_defs)
  have h6: "\<not> notTime (header excludedHoldAllLedger) \<and> commonBudgetWinners excludeAllConfig [] = []
      \<and> loadAccount (accounts excludedHoldAllLedger) (COMMON_BUDGET_ACCOUNT_ID excludeAllConfig) = Some 7
      \<and> addBalance 7 (feePool (header excludedHoldAllLedger)) = Some 1000007"
    by (simp add: example_defs inflation_defs)
  have c6: "commonBudgetInflationOpFrame excludeAllConfig [] excludedHoldAllLedger =
       Inr (INFLATION_SUCCESS [\<lparr>destination = ''budget'', amount = 1000000\<rparr>],
            \<lparr>header = \<lparr>ledgerVersion = 8, closeTime = 1404172800, totalCoins = 1000012,
                       feePool = 0, inflationSeq = 1\<rparr>,
             accounts = exampleAccounts(''budget'' \<mapsto> 1000007)\<rparr>)"
    using claim[where st = excludedHoldAllLedger and rows = "[]" and cfg = excludeAllConfig
        and commonBudget = 7 and b = 1000007,
        THEN conjunct2, THEN conjunct2, THEN conjunct2, THEN conjunct2, THEN conjunct2,
        THEN conjunct1, THEN mp, OF h6]
    by (simp add: example_defs)
  have h7: "\<not> notTime (header fullLedger) \<and> commonBudgetWinners plainConfig [] = []
      \<and> loadAccount (accounts fullLedger) (COMMON_BUDGET_ACCOUNT_ID plainConfig)
          = Some 9223372036854775807
      \<and> addBalance 9223372036854775807 (feePool (header fullLedger)) = None"
    by (simp add: example_defs inflation_defs)
  have c7: "commonBudgetInflationOpFrame plainConfig [] fullLedger
       = Inl InflationOverflowedCommonBudgetBalance"
    using claim[where st = fullLedger and rows = "[]" and cfg = plainConfig
        and commonBudget = 9223372036854775807,
        THEN conjunct2, THEN conjunct2, THEN conjunct2, THEN conjunct2, THEN conjunct2,
        THEN conjunct2, THEN mp, OF h7] .
  show ?thesis using h1 c1 h2 c2 h3 c3 h4 c4 h5 c5 h6 c6 h7 c7 by blast
qed

text \<open>The parameters of the common budget scheme, lines 174 to 189 and 205.\<close>

lemma foldl_excluded:
  "foldl (\<lambda>totalVotes a. case loadAccount db a of None \<Rightarrow> totalVotes
                          | Some balance \<Rightarrow> totalVotes - balance) v as
   = v - sum_list (map (\<lambda>a. case loadAccount db a of None \<Rightarrow> 0 | Some balance \<Rightarrow> balance) as)"
  by (induction as arbitrary: v) (auto split: option.splits simp: algebra_simps)

lemma commonBudgetTotalVotes_eq:
  "commonBudgetTotalVotes cfg st =
     totalCoins (header st) - feePool (header st)
     - sum_list (map (\<lambda>a. case loadAccount (accounts st) a of None \<Rightarrow> 0 | Some balance \<Rightarrow> balance)
                   (COMMON_BUDGET_INFLATION_EXCLUDED_ACCOUNTS cfg))"
  by (simp add: commonBudgetTotalVotes_def foldl_excluded)

lemma commonBudgetAmountToDole_exact:
  assumes "uint (feePool h) * 7 < 2 ^ 64"
  shows "uint (commonBudgetAmountToDole h) = (uint (feePool h) * 7) div 10"
proof -
  have "uint (feePool h * 7) = uint (feePool h) * 7"
    using assms by (simp add: uint_word_ariths)
  then show ?thesis by (simp add: commonBudgetAmountToDole_def uint_div)
qed

text \<open>
  Claim C8.  The claim says that \<open>totalVotes\<close> is \<open>totalCoins - feePool\<close> minus the
  balances of the excluded accounts that exist, and that \<open>amountToDole\<close> is
  \<open>feePool * 7 div 10\<close> over the integers, with no wrap-around in \<open>feePool * 7\<close>.
  The two lemmas above are the parts that hold on the code: the formula for
  \<open>totalVotes\<close> (in 64-bit arithmetic, over the list of excluded accounts of the
  configuration), and the value of \<open>amountToDole\<close> as long as \<open>feePool * 7\<close> is below
  \<open>2^64\<close>.  Beyond that the claim fails: line 205 multiplies in the 64-bit type of the
  fee pool.  With a fee pool of \<open>3 * 10^18\<close> (in a ledger of \<open>5 * 10^18\<close> coins) the
  code computes 255325592629044838 where the claim says 2100000000000000000.  (The
  wrapped product is below \<open>2^63\<close>, so a signed division gives the same value.)
\<close>

theorem commonBudgetAmountToDole_wraps:
  "commonBudgetAmountToDole largeFeePoolHeader = 255325592629044838
   \<and> uint (commonBudgetAmountToDole largeFeePoolHeader) = 255325592629044838
   \<and> (uint (feePool largeFeePoolHeader) * 7) div 10 = 2100000000000000000
   \<and> uint (feePool largeFeePoolHeader) \<le> uint (totalCoins largeFeePoolHeader)"
  by (simp add: commonBudgetAmountToDole_def largeFeePoolHeader_def)

end
